theory Spec2Isabelle
  imports Main "HOL-Library.Word"
begin

unbundle bit_operations_syntax

section \<open>The class compiler of the topology pre-processor (topology/pre-process-class.c)\<close>

text \<open>
  The C functions of \<^verbatim>\<open>pre-process-class.c\<close> return an \<^verbatim>\<open>int\<close> (0 or a negative
  errno) and mutate the pre-processor's class list, a class or an attribute through a
  pointer. Here each of them takes the object it mutates and returns an outcome holding
  the object as it is when the function returns, also when it returns an error: the C
  code rolls nothing back, so the state at an error return is part of the behaviour.
  An \<^verbatim>\<open>assert\<close> that fails ends the process, which is the third outcome.
\<close>

subsection \<open>Machine integers and return values\<close>

type_synonym c_int = "32 word"
type_synonym c_long = "64 word"

datatype errno = EINVAL | ENOMEM

datatype 's outcome = Done 's | Failed errno 's | Aborted

definition INT_MIN :: c_int where
  "INT_MIN = - (2 ^ 31)"

definition INT_MAX :: c_int where
  "INT_MAX = 2 ^ 31 - 1"

text \<open>The value \<^verbatim>\<open>-EINVAL\<close> stored in an \<^verbatim>\<open>int\<close> field (EINVAL is 22).\<close>

definition neg_EINVAL :: c_int where
  "neg_EINVAL = - 22"

subsection \<open>The configuration tree\<close>

text \<open>
  Modelled from the spec: alsa-lib's configuration reader (\<^verbatim>\<open>snd_config_t\<close> and its
  functions) is an external library and is not among the sources. A node has an id,
  which the code reads with \<^verbatim>\<open>snd_config_get_id\<close> and whose reading it allows to
  fail, and a value: an integer (a C \<^verbatim>\<open>long\<close>), a string, a compound holding its
  children in declaration order, or a value of another type (real, 64-bit integer,
  pointer).
\<close>

datatype snd_config_val =
    INTEGER c_long
  | STRING string
  | COMPOUND "snd_config list"
  | OTHER
and snd_config = Node (node_id: "string option") (node_val: snd_config_val)

text \<open>
  The reader's functions, as the spec's contract of the Config Node Reader gives them:
  reading the id, and typed scalar extraction that fails with \<^verbatim>\<open>-EINVAL\<close> when the
  node holds another type.
\<close>

definition snd_config_get_id :: "snd_config \<Rightarrow> errno + string" where
  "snd_config_get_id n = (case node_id n of None \<Rightarrow> Inl EINVAL | Some i \<Rightarrow> Inr i)"

definition snd_config_get_string :: "snd_config \<Rightarrow> errno + string" where
  "snd_config_get_string n = (case node_val n of STRING s \<Rightarrow> Inr s | _ \<Rightarrow> Inl EINVAL)"

definition snd_config_get_integer :: "snd_config \<Rightarrow> errno + c_long" where
  "snd_config_get_integer n = (case node_val n of INTEGER v \<Rightarrow> Inr v | _ \<Rightarrow> Inl EINVAL)"

text \<open>
  The children that \<^verbatim>\<open>snd_config_for_each\<close> visits, in declaration order. The spec's
  reader offers iteration over any node; a scalar has no children.
\<close>

definition children :: "snd_config \<Rightarrow> snd_config list" where
  "children n = (case node_val n of COMPOUND ns \<Rightarrow> ns | _ \<Rightarrow> [])"

text \<open>
  The loop \<^verbatim>\<open>snd_config_for_each(i, next, cfg) { body }\<close> followed by \<^verbatim>\<open>return 0\<close>:
  the body runs on each child in turn; \<^verbatim>\<open>continue\<close> and falling off the end of the
  body are \<open>Done\<close>, a \<^verbatim>\<open>return\<close> of an error inside the body leaves the loop and the
  function.
\<close>

fun snd_config_for_each :: "('s \<Rightarrow> snd_config \<Rightarrow> 's outcome) \<Rightarrow> 's \<Rightarrow> snd_config list \<Rightarrow> 's outcome" where
  "snd_config_for_each body s [] = Done s"
| "snd_config_for_each body s (n # ns) =
     (case body s n of
        Done s' \<Rightarrow> snd_config_for_each body s' ns
      | Failed e s' \<Rightarrow> Failed e s'
      | Aborted \<Rightarrow> Aborted)"

subsection \<open>libc and alsa-lib string helpers\<close>

definition isdigit_c :: "char \<Rightarrow> bool" where
  "isdigit_c c = (48 \<le> (of_char c :: nat) \<and> (of_char c :: nat) \<le> 57)"

text \<open>
  \<^verbatim>\<open>atoi\<close> on a string whose first character is a digit (its only call is guarded by
  that test, so neither white space nor a sign is skipped): the decimal value of the
  leading run of digits, in an \<^verbatim>\<open>int\<close>. A value too large for an \<^verbatim>\<open>int\<close> is
  undefined in C; here it wraps around.
\<close>

definition atoi :: "string \<Rightarrow> c_int" where
  "atoi s = foldl (\<lambda>acc c. acc * 10 + (of_nat (of_char c - 48))) 0 (takeWhile isdigit_c s)"

text \<open>
  \<^verbatim>\<open>snd_strlcpy(dst, src, size)\<close> copies at most \<^verbatim>\<open>size - 1\<close> characters and
  terminates the copy.
\<close>

definition snd_strlcpy :: "string \<Rightarrow> nat \<Rightarrow> string" where
  "snd_strlcpy src sz = take (sz - 1) src"

subsection \<open>The compiled schema (topology.h)\<close>

text \<open>
  Modelled from the spec: \<^verbatim>\<open>topology.h\<close>, which declares the structures and constants
  below, is not among the sources. The fields are those the code reads and writes, with
  the spec's data model: a ValueRef has an id, a string and an integer value; a
  constraint has a valid-value list, signed integer bounds and a category mask; an
  attribute has a bounded-length name, a parameter type, a token reference and one
  constraint; a class has a bounded-length name, an argument count and its attributes
  in order. The linked lists are HOL lists from the head: \<^verbatim>\<open>list_add\<close> puts an entry
  at the front, \<^verbatim>\<open>list_add_tail\<close> at the end.
\<close>

definition SNDRV_CTL_ELEM_ID_NAME_MAXLEN :: nat where
  "SNDRV_CTL_ELEM_ID_NAME_MAXLEN = 44"

definition TPLG_CLASS_ATTRIBUTE_MASK_MANDATORY :: c_int where
  "TPLG_CLASS_ATTRIBUTE_MASK_MANDATORY = push_bit 1 1"

definition TPLG_CLASS_ATTRIBUTE_MASK_IMMUTABLE :: c_int where
  "TPLG_CLASS_ATTRIBUTE_MASK_IMMUTABLE = push_bit 2 1"

definition TPLG_CLASS_ATTRIBUTE_MASK_DEPRECATED :: c_int where
  "TPLG_CLASS_ATTRIBUTE_MASK_DEPRECATED = push_bit 3 1"

definition TPLG_CLASS_ATTRIBUTE_MASK_AUTOMATIC :: c_int where
  "TPLG_CLASS_ATTRIBUTE_MASK_AUTOMATIC = push_bit 4 1"

definition TPLG_CLASS_ATTRIBUTE_MASK_UNIQUE :: c_int where
  "TPLG_CLASS_ATTRIBUTE_MASK_UNIQUE = push_bit 5 1"

datatype tplg_class_param_type =
  TPLG_CLASS_PARAM_TYPE_ARGUMENT | TPLG_CLASS_PARAM_TYPE_ATTRIBUTE

record tplg_attribute_ref =
  ref_id :: string
  ref_string :: string
  ref_value :: c_int

record attribute_constraint =
  value_list :: "tplg_attribute_ref list"
  mask :: c_int
  c_min :: c_int
  c_max :: c_int

record tplg_attribute =
  attr_name :: string
  param_type :: tplg_class_param_type
  token_ref :: string
  constraint :: attribute_constraint

record tplg_class =
  class_name :: string
  num_args :: c_int
  attribute_list :: "tplg_attribute list"

record tplg_pre_processor =
  class_list :: "tplg_class list"

subsection \<open>Looking a class up\<close>

fun tplg_class_lookup :: "tplg_pre_processor \<Rightarrow> string \<Rightarrow> tplg_class option" where
  "tplg_class_lookup tplg_pp name = find (\<lambda>class. class_name class = name) (class_list tplg_pp)"

subsection \<open>Constraints\<close>

text \<open>
  The inner loop of \<^verbatim>\<open>tplg_parse_constraint_valid_value_ref\<close>: the first entry of the
  value list whose id is the given one gets the value, and the loop breaks.
\<close>

fun update_value_ref :: "string \<Rightarrow> c_int \<Rightarrow> tplg_attribute_ref list \<Rightarrow> tplg_attribute_ref list" where
  "update_value_ref i v [] = []"
| "update_value_ref i v (r # rs) =
     (if ref_id r = i then r\<lparr>ref_value := v\<rparr> # rs else r # update_value_ref i v rs)"

text \<open>
  The value a \<^verbatim>\<open>tuple_values\<close> entry holds, as a \<^verbatim>\<open>long\<close>: the integer of an integer
  node; for a string node \<^verbatim>\<open>atoi\<close> of the string when its first character is a digit
  (the first character of the empty string is the terminator, which is not a digit).
\<close>

definition reference_value :: "snd_config \<Rightarrow> errno + c_long" where
  "reference_value n =
     (case snd_config_get_string n of
        Inl _ \<Rightarrow>
          (case snd_config_get_integer n of
             Inl err \<Rightarrow> Inl err
           | Inr v \<Rightarrow> Inr v)
      | Inr s \<Rightarrow>
          (case s of
             [] \<Rightarrow> Inl EINVAL
           | c # _ \<Rightarrow> if \<not> isdigit_c c then Inl EINVAL else Inr (scast (atoi s))))"

text \<open>The body of the loop of \<^verbatim>\<open>tplg_parse_constraint_valid_value_ref\<close>.\<close>

definition valid_value_ref_entry :: "tplg_attribute \<Rightarrow> snd_config \<Rightarrow> tplg_attribute outcome" where
  "valid_value_ref_entry attr n =
     (case snd_config_get_id n of
        Inl _ \<Rightarrow> Failed EINVAL attr
      | Inr i \<Rightarrow>
          (case reference_value n of
             Inl err \<Rightarrow> Failed err attr
           | Inr v \<Rightarrow>
               Done (attr\<lparr>constraint := (constraint attr)
                      \<lparr>value_list := update_value_ref i (ucast v) (value_list (constraint attr))\<rparr>\<rparr>)))"

definition tplg_parse_constraint_valid_value_ref :: "snd_config \<Rightarrow> tplg_attribute \<Rightarrow> tplg_attribute outcome" where
  "tplg_parse_constraint_valid_value_ref cfg attr =
     snd_config_for_each valid_value_ref_entry attr (children cfg)"

text \<open>
  The body of the loop of \<^verbatim>\<open>tplg_parse_constraint_valid_values\<close>; \<^verbatim>\<open>calloc\<close> is taken
  to succeed.
\<close>

definition valid_values_entry :: "tplg_attribute \<Rightarrow> snd_config \<Rightarrow> tplg_attribute outcome" where
  "valid_values_entry attr n =
     (case snd_config_get_id n of
        Inl _ \<Rightarrow> Failed EINVAL attr
      | Inr i \<Rightarrow>
          (case snd_config_get_string n of
             Inl err \<Rightarrow> Failed err attr
           | Inr s \<Rightarrow>
               Done (attr\<lparr>constraint := (constraint attr)
                      \<lparr>value_list := \<lparr>ref_id = i, ref_string = s, ref_value = neg_EINVAL\<rparr>
                                       # value_list (constraint attr)\<rparr>\<rparr>)))"

definition tplg_parse_constraint_valid_values :: "snd_config \<Rightarrow> tplg_attribute \<Rightarrow> tplg_attribute outcome" where
  "tplg_parse_constraint_valid_values cfg attr =
     snd_config_for_each valid_values_entry attr (children cfg)"

text \<open>The body of the loop of \<^verbatim>\<open>tplg_parse_class_constraints\<close>.\<close>

definition class_constraints_entry :: "tplg_attribute \<Rightarrow> snd_config \<Rightarrow> tplg_attribute outcome" where
  "class_constraints_entry attr n =
     (case snd_config_get_id n of
        Inl _ \<Rightarrow> Done attr
      | Inr i \<Rightarrow>
          if i = ''min'' then
            (case snd_config_get_integer n of
               Inl err \<Rightarrow> Failed err attr
             | Inr v \<Rightarrow> Done (attr\<lparr>constraint := (constraint attr)\<lparr>c_min := ucast v\<rparr>\<rparr>))
          else if i = ''max'' then
            (case snd_config_get_integer n of
               Inl err \<Rightarrow> Failed err attr
             | Inr v \<Rightarrow> Done (attr\<lparr>constraint := (constraint attr)\<lparr>c_max := ucast v\<rparr>\<rparr>))
          else if i = ''valid_values'' then tplg_parse_constraint_valid_values n attr
          else if i = ''tuple_values'' then tplg_parse_constraint_valid_value_ref n attr
          else Done attr)"

definition tplg_parse_class_constraints :: "snd_config \<Rightarrow> tplg_attribute \<Rightarrow> tplg_attribute outcome" where
  "tplg_parse_class_constraints cfg attr =
     snd_config_for_each class_constraints_entry attr (children cfg)"

subsection \<open>Attributes\<close>

text \<open>
  The body of the loop of \<^verbatim>\<open>tplg_parse_class_attribute\<close>. Whatever error the
  constraints return, the function returns \<^verbatim>\<open>-EINVAL\<close>.
\<close>

definition class_attribute_entry :: "tplg_attribute \<Rightarrow> snd_config \<Rightarrow> tplg_attribute outcome" where
  "class_attribute_entry attr n =
     (case snd_config_get_id n of
        Inl _ \<Rightarrow> Done attr
      | Inr i \<Rightarrow>
          if i = ''constraints'' then
            (case tplg_parse_class_constraints n attr of
               Done attr' \<Rightarrow> Done attr'
             | Failed _ attr' \<Rightarrow> Failed EINVAL attr'
             | Aborted \<Rightarrow> Aborted)
          else if i = ''token_ref'' then
            (case snd_config_get_string n of
               Inl _ \<Rightarrow> Failed EINVAL attr
             | Inr s \<Rightarrow> Done (attr\<lparr>token_ref := snd_strlcpy s SNDRV_CTL_ELEM_ID_NAME_MAXLEN\<rparr>))
          else Done attr)"

definition tplg_parse_class_attribute :: "snd_config \<Rightarrow> tplg_attribute \<Rightarrow> tplg_attribute outcome" where
  "tplg_parse_class_attribute cfg attr =
     snd_config_for_each class_attribute_entry attr (children cfg)"

text \<open>
  The attribute that \<^verbatim>\<open>tplg_parse_class_attributes\<close> allocates (zeroed by \<^verbatim>\<open>calloc\<close>)
  and initialises before it parses the attribute's node.
\<close>

definition init_attribute :: "tplg_class_param_type \<Rightarrow> string \<Rightarrow> tplg_attribute" where
  "init_attribute type i =
     \<lparr>attr_name = snd_strlcpy i SNDRV_CTL_ELEM_ID_NAME_MAXLEN,
      param_type = type,
      token_ref = [],
      constraint = \<lparr>value_list = [], mask = 0, c_min = INT_MIN, c_max = INT_MAX\<rparr>\<rparr>"

text \<open>
  The body of the loop of \<^verbatim>\<open>tplg_parse_class_attributes\<close>: the argument count grows
  before the attribute is parsed, the attribute joins the list after.
\<close>

definition class_attributes_entry :: "tplg_class_param_type \<Rightarrow> tplg_class \<Rightarrow> snd_config \<Rightarrow> tplg_class outcome" where
  "class_attributes_entry type class n =
     (case snd_config_get_id n of
        Inl _ \<Rightarrow> Done class
      | Inr i \<Rightarrow>
          let class1 = (if type = TPLG_CLASS_PARAM_TYPE_ARGUMENT
                        then class\<lparr>num_args := num_args class + 1\<rparr> else class)
          in (case tplg_parse_class_attribute n (init_attribute type i) of
                Done attr \<Rightarrow> Done (class1\<lparr>attribute_list := attribute_list class1 @ [attr]\<rparr>)
              | Failed ret _ \<Rightarrow> Failed ret class1
              | Aborted \<Rightarrow> Aborted))"

definition tplg_parse_class_attributes :: "snd_config \<Rightarrow> tplg_class \<Rightarrow> tplg_class_param_type \<Rightarrow> tplg_class outcome" where
  "tplg_parse_class_attributes cfg class type =
     snd_config_for_each (class_attributes_entry type) class (children cfg)"

subsection \<open>Categories\<close>

text \<open>
  \<^verbatim>\<open>tplg_get_attribute_by_name\<close> returns a pointer to the first attribute of the list
  with the name, or NULL. The pointer is the attribute's position in the list.
\<close>

fun tplg_get_attribute_by_name :: "tplg_attribute list \<Rightarrow> string \<Rightarrow> nat option" where
  "tplg_get_attribute_by_name [] name = None"
| "tplg_get_attribute_by_name (attr # list) name =
     (if attr_name attr = name then Some 0
      else map_option Suc (tplg_get_attribute_by_name list name))"

text \<open>
  The assignment \<^verbatim>\<open>attr->constraint.mask |= category\<close>, on an attribute and through a
  pointer into the attribute list of a class. The pointer comes from
  \<^verbatim>\<open>tplg_get_attribute_by_name\<close> on the same list, so the position is in range.
\<close>

definition with_mask :: "c_int \<Rightarrow> tplg_attribute \<Rightarrow> tplg_attribute" where
  "with_mask category attr =
     attr\<lparr>constraint := (constraint attr)\<lparr>mask := mask (constraint attr) OR category\<rparr>\<rparr>"

definition or_mask :: "tplg_class \<Rightarrow> nat \<Rightarrow> c_int \<Rightarrow> tplg_class" where
  "or_mask class p category =
     class\<lparr>attribute_list := (attribute_list class)
       [p := with_mask category (attribute_list class ! p)]\<rparr>"

text \<open>The body of the loop of \<^verbatim>\<open>tplg_parse_class_attribute_category\<close>.\<close>

definition class_attribute_category_entry :: "c_int \<Rightarrow> tplg_class \<Rightarrow> snd_config \<Rightarrow> tplg_class outcome" where
  "class_attribute_category_entry category class n =
     (case snd_config_get_string n of
        Inl _ \<Rightarrow> Failed EINVAL class
      | Inr i \<Rightarrow>
          (case tplg_get_attribute_by_name (attribute_list class) i of
             None \<Rightarrow> Done class
           | Some p \<Rightarrow> Done (or_mask class p category)))"

definition tplg_parse_class_attribute_category :: "snd_config \<Rightarrow> tplg_class \<Rightarrow> c_int \<Rightarrow> tplg_class outcome" where
  "tplg_parse_class_attribute_category cfg class category =
     snd_config_for_each (class_attribute_category_entry category) class (children cfg)"

text \<open>
  The body of the loop of \<^verbatim>\<open>tplg_parse_class_attribute_categories\<close>. The local
  variable \<^verbatim>\<open>category\<close> is declared and set to 0 before the loop, so it is part of the
  state the loop carries from one child to the next. The four tests of the id are
  separate \<^verbatim>\<open>if\<close> statements, in the source's order.
\<close>

definition class_attribute_categories_entry :: "c_int \<times> tplg_class \<Rightarrow> snd_config \<Rightarrow> (c_int \<times> tplg_class) outcome" where
  "class_attribute_categories_entry st n =
     (let category = fst st; class = snd st in
      case snd_config_get_id n of
        Inl _ \<Rightarrow> Failed EINVAL (category, class)
      | Inr i \<Rightarrow>
          let category = (if i = ''mandatory'' then TPLG_CLASS_ATTRIBUTE_MASK_MANDATORY else category);
              category = (if i = ''immutable'' then TPLG_CLASS_ATTRIBUTE_MASK_IMMUTABLE else category);
              category = (if i = ''deprecated'' then TPLG_CLASS_ATTRIBUTE_MASK_DEPRECATED else category);
              category = (if i = ''automatic'' then TPLG_CLASS_ATTRIBUTE_MASK_AUTOMATIC else category)
          in if i = ''unique'' then
               (case snd_config_get_string n of
                  Inl _ \<Rightarrow> Aborted
                | Inr s \<Rightarrow>
                    (case tplg_get_attribute_by_name (attribute_list class) s of
                       None \<Rightarrow> Done (category, class)
                     | Some p \<Rightarrow> Done (category, or_mask class p TPLG_CLASS_ATTRIBUTE_MASK_UNIQUE)))
             else if category = 0 then Done (category, class)
             else
               (case tplg_parse_class_attribute_category n class category of
                  Done class' \<Rightarrow> Done (category, class')
                | Failed ret class' \<Rightarrow> Failed ret (category, class')
                | Aborted \<Rightarrow> Aborted))"

definition tplg_parse_class_attribute_categories :: "snd_config \<Rightarrow> tplg_class \<Rightarrow> tplg_class outcome" where
  "tplg_parse_class_attribute_categories cfg class =
     (case snd_config_for_each class_attribute_categories_entry (0, class) (children cfg) of
        Done st \<Rightarrow> Done (snd st)
      | Failed ret st \<Rightarrow> Failed ret (snd st)
      | Aborted \<Rightarrow> Aborted)"

subsection \<open>Classes and the registry\<close>

text \<open>
  The body of the loop of \<^verbatim>\<open>tplg_define_class\<close>. The branch of \<^verbatim>\<open>DefineAttribute\<close>
  has no \<^verbatim>\<open>continue\<close> and falls through to the test for \<^verbatim>\<open>attributes\<close>, which then
  fails.
\<close>

definition define_class_entry :: "tplg_class \<Rightarrow> snd_config \<Rightarrow> tplg_class outcome" where
  "define_class_entry class n =
     (case snd_config_get_id n of
        Inl _ \<Rightarrow> Done class
      | Inr i \<Rightarrow>
          if i = ''DefineArgument'' then
            tplg_parse_class_attributes n class TPLG_CLASS_PARAM_TYPE_ARGUMENT
          else
            (case (if i = ''DefineAttribute''
                   then tplg_parse_class_attributes n class TPLG_CLASS_PARAM_TYPE_ATTRIBUTE
                   else Done class) of
               Done class' \<Rightarrow>
                 if i = ''attributes'' then tplg_parse_class_attribute_categories n class'
                 else Done class'
             | Failed ret class' \<Rightarrow> Failed ret class'
             | Aborted \<Rightarrow> Aborted))"

text \<open>
  \<^verbatim>\<open>tplg_define_class\<close>. The new class is put at the front of the class list before
  its body is parsed, and the parsing works on the class through the pointer, that is on
  the first entry of the class list. The parameter \<^verbatim>\<open>type\<close> is not used by the code.
\<close>

definition tplg_define_class :: "tplg_pre_processor \<Rightarrow> snd_config \<Rightarrow> tplg_pre_processor outcome" where
  "tplg_define_class tplg_pp cfg =
     (case snd_config_get_id cfg of
        Inl _ \<Rightarrow> Failed EINVAL tplg_pp
      | Inr i \<Rightarrow>
          (case tplg_class_lookup tplg_pp i of
             Some _ \<Rightarrow> Done tplg_pp
           | None \<Rightarrow>
               let class = \<lparr>class_name = snd_strlcpy i SNDRV_CTL_ELEM_ID_NAME_MAXLEN,
                            num_args = 0, attribute_list = []\<rparr>;
                   tplg_pp1 = tplg_pp\<lparr>class_list := class # class_list tplg_pp\<rparr>
               in (case snd_config_for_each define_class_entry class (children cfg) of
                     Done class' \<Rightarrow> Done (tplg_pp1\<lparr>class_list := (class_list tplg_pp1)[0 := class']\<rparr>)
                   | Failed ret class' \<Rightarrow>
                       Failed ret (tplg_pp1\<lparr>class_list := (class_list tplg_pp1)[0 := class']\<rparr>)
                   | Aborted \<Rightarrow> Aborted)))"

text \<open>The body of the loop of \<^verbatim>\<open>tplg_define_classes\<close>.\<close>

definition define_classes_entry :: "tplg_pre_processor \<Rightarrow> snd_config \<Rightarrow> tplg_pre_processor outcome" where
  "define_classes_entry tplg_pp n =
     (case snd_config_get_id n of
        Inl _ \<Rightarrow> Done tplg_pp
      | Inr _ \<Rightarrow> tplg_define_class tplg_pp n)"

definition tplg_define_classes :: "tplg_pre_processor \<Rightarrow> snd_config \<Rightarrow> tplg_pre_processor outcome" where
  "tplg_define_classes tplg_pp cfg =
     snd_config_for_each define_classes_entry tplg_pp (children cfg)"

subsection \<open>What a definition declares\<close>

text \<open>
  The specification speaks of the attributes a class declares, of the valid values an
  attribute declares and of an attribute without \<^verbatim>\<open>constraints.min\<close> and
  \<^verbatim>\<open>constraints.max\<close>. These are read off the configuration tree, in the words of the
  specification: the ids of the children of the sections \<^verbatim>\<open>DefineArgument\<close> and
  \<^verbatim>\<open>DefineAttribute\<close> of a class node, in declaration order; the children of the
  \<^verbatim>\<open>valid_values\<close> blocks of the \<^verbatim>\<open>constraints\<close> blocks of an attribute node, in
  declaration order; and whether a \<^verbatim>\<open>constraints\<close> block of an attribute node has a
  child \<^verbatim>\<open>min\<close> or \<^verbatim>\<open>max\<close>.
\<close>

definition declared_attribute_names :: "snd_config \<Rightarrow> string list" where
  "declared_attribute_names cfg =
     concat (map (\<lambda>sec. if node_id sec = Some ''DefineArgument'' \<or> node_id sec = Some ''DefineAttribute''
                         then List.map_filter node_id (children sec) else [])
                 (children cfg))"

definition declared_valid_values :: "snd_config \<Rightarrow> snd_config list" where
  "declared_valid_values a =
     concat (map (\<lambda>c. if node_id c = Some ''constraints''
                       then concat (map (\<lambda>v. if node_id v = Some ''valid_values'' then children v else [])
                                        (children c))
                       else [])
                 (children a))"

definition declares_bound :: "snd_config \<Rightarrow> bool" where
  "declares_bound a =
     (\<exists>c \<in> set (children a). node_id c = Some ''constraints'' \<and>
        (\<exists>m \<in> set (children c). node_id m = Some ''min'' \<or> node_id m = Some ''max''))"

text \<open>
  The attributes a class node declares, in declaration order, each with the kind of its
  section, its id and its definition node.
\<close>

definition declared_attribute ::
  "tplg_class_param_type \<Rightarrow> snd_config \<Rightarrow> (tplg_class_param_type \<times> string \<times> snd_config) list" where
  "declared_attribute type a = (case node_id a of None \<Rightarrow> [] | Some i \<Rightarrow> [(type, i, a)])"

definition declared_attributes ::
  "snd_config \<Rightarrow> (tplg_class_param_type \<times> string \<times> snd_config) list" where
  "declared_attributes cfg =
     concat (map (\<lambda>sec.
        if node_id sec = Some ''DefineArgument''
        then concat (map (declared_attribute TPLG_CLASS_PARAM_TYPE_ARGUMENT) (children sec))
        else if node_id sec = Some ''DefineAttribute''
        then concat (map (declared_attribute TPLG_CLASS_PARAM_TYPE_ATTRIBUTE) (children sec))
        else [])
      (children cfg))"

text \<open>Projections of the compiled schema that the proofs follow through the loops.\<close>

definition bounds :: "tplg_attribute \<Rightarrow> c_int \<times> c_int" where
  "bounds attr = (c_min (constraint attr), c_max (constraint attr))"

definition attribute_names :: "tplg_class \<Rightarrow> string list" where
  "attribute_names c = map attr_name (attribute_list c)"

definition declared_name :: "snd_config \<Rightarrow> string list" where
  "declared_name n = (case node_id n of None \<Rightarrow> []
                      | Some i \<Rightarrow> [snd_strlcpy i SNDRV_CTL_ELEM_ID_NAME_MAXLEN])"

definition declared_refs :: "tplg_attribute \<Rightarrow> (string option \<times> snd_config_val) list" where
  "declared_refs attr =
     rev (map (\<lambda>r. (Some (ref_id r), STRING (ref_string r))) (value_list (constraint attr)))"

text \<open>
  An attribute without its category mask, which the classifier alone changes after the
  attribute has joined the class; and the relation of such an attribute to the
  declaration it was built from.
\<close>

definition strip_mask :: "tplg_attribute \<Rightarrow> tplg_attribute" where
  "strip_mask attr = attr\<lparr>constraint := (constraint attr)\<lparr>mask := 0\<rparr>\<rparr>"

definition stripped :: "tplg_class \<Rightarrow> tplg_attribute list" where
  "stripped c = map strip_mask (attribute_list c)"

definition built_from ::
  "tplg_attribute \<Rightarrow> tplg_class_param_type \<times> string \<times> snd_config \<Rightarrow> bool" where
  "built_from attr' d =
     (case d of (type, i, n) \<Rightarrow>
        (case tplg_parse_class_attribute n (init_attribute type i) of
           Done b \<Rightarrow> attr' = strip_mask b
         | Failed _ _ \<Rightarrow> False
         | Aborted \<Rightarrow> False))"

section \<open>Unfolding the definitions on concrete trees\<close>

lemmas reader_defs = snd_config_get_id_def snd_config_get_string_def snd_config_get_integer_def

lemmas constant_defs = SNDRV_CTL_ELEM_ID_NAME_MAXLEN_def snd_strlcpy_def
  TPLG_CLASS_ATTRIBUTE_MASK_MANDATORY_def TPLG_CLASS_ATTRIBUTE_MASK_IMMUTABLE_def
  TPLG_CLASS_ATTRIBUTE_MASK_DEPRECATED_def TPLG_CLASS_ATTRIBUTE_MASK_AUTOMATIC_def
  TPLG_CLASS_ATTRIBUTE_MASK_UNIQUE_def INT_MIN_def INT_MAX_def neg_EINVAL_def

lemmas compiler_defs =
  tplg_parse_constraint_valid_value_ref_def valid_value_ref_entry_def reference_value_def
  tplg_parse_constraint_valid_values_def valid_values_entry_def
  tplg_parse_class_constraints_def class_constraints_entry_def
  tplg_parse_class_attribute_def class_attribute_entry_def
  tplg_parse_class_attributes_def class_attributes_entry_def init_attribute_def
  tplg_parse_class_attribute_category_def class_attribute_category_entry_def
  or_mask_def with_mask_def
  tplg_parse_class_attribute_categories_def class_attribute_categories_entry_def
  tplg_define_class_def define_class_entry_def
  tplg_define_classes_def define_classes_entry_def
  isdigit_c_def atoi_def

section \<open>Facts about the loop\<close>

lemma children_Node [simp]: "children (Node i (COMPOUND ns)) = ns"
  by (simp add: children_def)

lemma for_each_append:
  "snd_config_for_each body s (xs @ ys) =
     (case snd_config_for_each body s xs of
        Done s' \<Rightarrow> snd_config_for_each body s' ys
      | Failed e s' \<Rightarrow> Failed e s'
      | Aborted \<Rightarrow> Aborted)"
  by (induction xs arbitrary: s) (simp_all split: outcome.splits)

lemma for_each_fails_at:
  assumes "snd_config_for_each body s pre = Done s1" and "body s1 n = Failed e s2"
  shows "snd_config_for_each body s (pre @ n # post) = Failed e s2"
  using assms by (simp add: for_each_append)

lemma for_each_aborts_at:
  assumes "snd_config_for_each body s pre = Done s1" and "body s1 n = Aborted"
  shows "snd_config_for_each body s (pre @ n # post) = Aborted"
  using assms by (simp add: for_each_append)

lemma for_each_not_Aborted:
  assumes "\<And>s n. n \<in> set ns \<Longrightarrow> body s n \<noteq> Aborted"
  shows "snd_config_for_each body s ns \<noteq> Aborted"
  using assms by (induction ns arbitrary: s) (auto split: outcome.splits)

lemma for_each_skip:
  assumes "\<And>s. body s n = Done s"
  shows "snd_config_for_each body s (pre @ n # post) = snd_config_for_each body s (pre @ post)"
  using assms by (simp add: for_each_append split: outcome.splits)

lemma for_each_Done_invariant:
  assumes "snd_config_for_each body s ns = Done s'"
    and "\<And>s n s'. n \<in> set ns \<Longrightarrow> body s n = Done s' \<Longrightarrow> f s' = f s"
  shows "f s' = f s"
  using assms
proof (induction ns arbitrary: s)
  case Nil
  then show ?case by simp
next
  case (Cons n ns)
  from Cons.prems(1) obtain s1 where s1: "body s n = Done s1"
    and rest: "snd_config_for_each body s1 ns = Done s'"
    by (auto split: outcome.splits)
  have "f s' = f s1"
    using rest Cons.prems(2) by (intro Cons.IH) auto
  moreover have "f s1 = f s"
    using s1 Cons.prems(2) by auto
  ultimately show ?case by simp
qed

lemma for_each_accum:
  assumes "snd_config_for_each body s ns = Done s'"
    and "\<And>s n s'. n \<in> set ns \<Longrightarrow> body s n = Done s' \<Longrightarrow> f s' = f s @ g n"
  shows "f s' = f s @ concat (map g ns)"
  using assms
proof (induction ns arbitrary: s)
  case Nil
  then show ?case by simp
next
  case (Cons n ns)
  from Cons.prems(1) obtain s1 where s1: "body s n = Done s1"
    and rest: "snd_config_for_each body s1 ns = Done s'"
    by (auto split: outcome.splits)
  have "f s' = f s1 @ concat (map g ns)"
    using rest Cons.prems(2) by (intro Cons.IH) auto
  moreover have "f s1 = f s @ g n"
    using s1 Cons.prems(2) by auto
  ultimately show ?case by simp
qed

lemma for_each_Failed_error:
  assumes "snd_config_for_each body s ns = Failed e s'"
    and "\<And>s n e s'. n \<in> set ns \<Longrightarrow> body s n = Failed e s' \<Longrightarrow> e = EINVAL"
  shows "e = EINVAL"
  using assms
proof (induction ns arbitrary: s)
  case Nil
  then show ?case by simp
next
  case (Cons n ns)
  show ?case
  proof (cases "body s n")
    case (Done s1)
    with Cons.prems(1) have "snd_config_for_each body s1 ns = Failed e s'" by simp
    then show ?thesis using Cons.prems(2) by (intro Cons.IH) auto
  next
    case (Failed e1 s1)
    with Cons.prems(1) have "e1 = e" by simp
    with Failed Cons.prems(2) show ?thesis by auto
  next
    case Aborted
    with Cons.prems(1) show ?thesis by simp
  qed
qed

lemma for_each_accum_rel:
  assumes "snd_config_for_each body s ns = Done s'"
    and "\<And>s n s'. n \<in> set ns \<Longrightarrow> body s n = Done s' \<Longrightarrow>
           \<exists>ys. f s' = f s @ ys \<and> list_all2 R ys (g n)"
  shows "\<exists>ys. f s' = f s @ ys \<and> list_all2 R ys (concat (map g ns))"
  using assms
proof (induction ns arbitrary: s)
  case Nil
  then show ?case by simp
next
  case (Cons n ns)
  from Cons.prems(1) obtain s1 where s1: "body s n = Done s1"
    and rest: "snd_config_for_each body s1 ns = Done s'"
    by (auto split: outcome.splits)
  obtain ys where ys: "f s1 = f s @ ys" "list_all2 R ys (g n)"
    using s1 Cons.prems(2) [of n s s1] by auto
  have "\<exists>zs. f s' = f s1 @ zs \<and> list_all2 R zs (concat (map g ns))"
    using rest Cons.prems(2) by (intro Cons.IH) auto
  then obtain zs where zs: "f s' = f s1 @ zs" "list_all2 R zs (concat (map g ns))"
    by blast
  have "f s' = f s @ (ys @ zs)" "list_all2 R (ys @ zs) (concat (map g (n # ns)))"
    using ys zs by (simp_all add: list_all2_appendI)
  then show ?case by blast
qed

section \<open>Defining a class whose name is registered\<close>

text \<open>
  C1. When the name of a class-definition node matches a registered class,
  \<^verbatim>\<open>tplg_define_class\<close> returns success and leaves the registry as it was, whatever the
  node's body is: the body is not parsed, and nothing of it reaches the registry.
\<close>

theorem C1_existing_class_is_skipped:
  assumes "tplg_class_lookup tplg_pp name = Some class"
  shows "tplg_define_class tplg_pp (Node (Some name) body) = Done tplg_pp"
  using assms by (simp add: tplg_define_class_def snd_config_get_id_def)

text \<open>
  An instance: the class Foo is registered with no attributes; a second definition of
  Foo, whose body would fail if it were parsed (a token reference that is not a string),
  returns success and changes nothing.
\<close>

theorem C1_existing_class_is_skipped_witness:
  "tplg_class_lookup \<lparr>class_list = [\<lparr>class_name = ''Foo'', num_args = 0, attribute_list = []\<rparr>]\<rparr> ''Foo''
     = Some \<lparr>class_name = ''Foo'', num_args = 0, attribute_list = []\<rparr>
   \<and> tplg_define_class \<lparr>class_list = [\<lparr>class_name = ''Foo'', num_args = 0, attribute_list = []\<rparr>]\<rparr>
        (Node (Some ''Foo'') (COMPOUND [Node (Some ''DefineArgument'')
            (COMPOUND [Node (Some ''dir'') (COMPOUND [Node (Some ''token_ref'') (INTEGER 1)])])]))
     = Done \<lparr>class_list = [\<lparr>class_name = ''Foo'', num_args = 0, attribute_list = []\<rparr>]\<rparr>"
proof -
  have h: "tplg_class_lookup \<lparr>class_list = [\<lparr>class_name = ''Foo'', num_args = 0, attribute_list = []\<rparr>]\<rparr> ''Foo''
     = Some \<lparr>class_name = ''Foo'', num_args = 0, attribute_list = []\<rparr>"
    by simp
  show ?thesis
    by (rule conjI [OF h C1_existing_class_is_skipped [OF h]])
qed

section \<open>Children whose id cannot be read\<close>

lemma unreadable_entries:
  assumes "node_id n = None"
  shows "define_classes_entry tplg_pp n = Done tplg_pp"
    and "define_class_entry class n = Done class"
    and "class_attributes_entry type class n = Done class"
    and "class_constraints_entry attr n = Done attr"
  using assms
  by (simp_all add: define_classes_entry_def define_class_entry_def class_attributes_entry_def
      class_constraints_entry_def snd_config_get_id_def)

text \<open>
  C10. Among the top-level children of \<^verbatim>\<open>tplg_define_classes\<close>, the children of a
  class's definition body, the attribute definitions of a section and the children of a
  constraints block, a child whose id cannot be read is skipped: the function returns
  what it returns on the same node without that child, the same outcome with the same
  compiled state.
\<close>

theorem C10_unreadable_id_is_skipped:
  assumes "node_id n = None"
  shows "tplg_define_classes tplg_pp (Node i (COMPOUND (pre @ n # post)))
           = tplg_define_classes tplg_pp (Node i (COMPOUND (pre @ post)))
       \<and> tplg_define_class tplg_pp (Node i (COMPOUND (pre @ n # post)))
           = tplg_define_class tplg_pp (Node i (COMPOUND (pre @ post)))
       \<and> tplg_parse_class_attributes (Node i (COMPOUND (pre @ n # post))) class type
           = tplg_parse_class_attributes (Node i (COMPOUND (pre @ post))) class type
       \<and> tplg_parse_class_constraints (Node i (COMPOUND (pre @ n # post))) attr
           = tplg_parse_class_constraints (Node i (COMPOUND (pre @ post))) attr"
proof (intro conjI)
  show "tplg_define_classes tplg_pp (Node i (COMPOUND (pre @ n # post)))
           = tplg_define_classes tplg_pp (Node i (COMPOUND (pre @ post)))"
    by (simp add: tplg_define_classes_def for_each_skip unreadable_entries(1) [OF assms])
  show "tplg_define_class tplg_pp (Node i (COMPOUND (pre @ n # post)))
           = tplg_define_class tplg_pp (Node i (COMPOUND (pre @ post)))"
  proof -
    have "snd_config_for_each define_class_entry c (pre @ n # post)
            = snd_config_for_each define_class_entry c (pre @ post)" for c
      by (rule for_each_skip) (rule unreadable_entries(2) [OF assms])
    then show ?thesis
      by (simp add: tplg_define_class_def snd_config_get_id_def Let_def split: option.split)
  qed
  show "tplg_parse_class_attributes (Node i (COMPOUND (pre @ n # post))) class type
           = tplg_parse_class_attributes (Node i (COMPOUND (pre @ post))) class type"
    by (simp add: tplg_parse_class_attributes_def for_each_skip unreadable_entries(3) [OF assms])
  show "tplg_parse_class_constraints (Node i (COMPOUND (pre @ n # post))) attr
           = tplg_parse_class_constraints (Node i (COMPOUND (pre @ post))) attr"
    by (simp add: tplg_parse_class_constraints_def for_each_skip unreadable_entries(4) [OF assms])
qed

text \<open>
  An instance at each of the four places: a child without a readable id between two
  children that are parsed.
\<close>

theorem C10_unreadable_id_is_skipped_witness:
  "node_id (Node None (STRING ''x'')) = None
   \<and> (tplg_define_classes \<lparr>class_list = []\<rparr>
          (Node (Some ''Class'')
             (COMPOUND ([Node (Some ''A'') (COMPOUND [])] @ Node None (STRING ''x'') # [Node (Some ''B'') (COMPOUND [])])))
        = tplg_define_classes \<lparr>class_list = []\<rparr>
          (Node (Some ''Class'')
             (COMPOUND ([Node (Some ''A'') (COMPOUND [])] @ [Node (Some ''B'') (COMPOUND [])])))
      \<and> tplg_define_class \<lparr>class_list = []\<rparr>
          (Node (Some ''Class'')
             (COMPOUND ([Node (Some ''A'') (COMPOUND [])] @ Node None (STRING ''x'') # [Node (Some ''B'') (COMPOUND [])])))
        = tplg_define_class \<lparr>class_list = []\<rparr>
          (Node (Some ''Class'')
             (COMPOUND ([Node (Some ''A'') (COMPOUND [])] @ [Node (Some ''B'') (COMPOUND [])])))
      \<and> tplg_parse_class_attributes
          (Node (Some ''Class'')
             (COMPOUND ([Node (Some ''A'') (COMPOUND [])] @ Node None (STRING ''x'') # [Node (Some ''B'') (COMPOUND [])])))
          \<lparr>class_name = ''Foo'', num_args = 0, attribute_list = []\<rparr> TPLG_CLASS_PARAM_TYPE_ARGUMENT
        = tplg_parse_class_attributes
          (Node (Some ''Class'')
             (COMPOUND ([Node (Some ''A'') (COMPOUND [])] @ [Node (Some ''B'') (COMPOUND [])])))
          \<lparr>class_name = ''Foo'', num_args = 0, attribute_list = []\<rparr> TPLG_CLASS_PARAM_TYPE_ARGUMENT
      \<and> tplg_parse_class_constraints
          (Node (Some ''Class'')
             (COMPOUND ([Node (Some ''A'') (COMPOUND [])] @ Node None (STRING ''x'') # [Node (Some ''B'') (COMPOUND [])])))
          (init_attribute TPLG_CLASS_PARAM_TYPE_ARGUMENT ''dir'')
        = tplg_parse_class_constraints
          (Node (Some ''Class'')
             (COMPOUND ([Node (Some ''A'') (COMPOUND [])] @ [Node (Some ''B'') (COMPOUND [])])))
          (init_attribute TPLG_CLASS_PARAM_TYPE_ARGUMENT ''dir''))"
proof -
  have h: "node_id (Node None (STRING ''x'')) = None"
    by simp
  show ?thesis
    by (rule conjI [OF h C10_unreadable_id_is_skipped [OF h]])
qed

section \<open>The category classifier\<close>

lemma with_mask_name [simp]: "attr_name (with_mask category attr) = attr_name attr"
  by (simp add: with_mask_def)

lemma with_mask_idem [simp]:
  "with_mask category (with_mask category attr) = with_mask category attr"
  by (simp add: with_mask_def or.assoc)

lemma get_attribute_None:
  "tplg_get_attribute_by_name list name = None \<longleftrightarrow> (\<forall>attr \<in> set list. attr_name attr \<noteq> name)"
  by (induction list) auto

lemma category_entry_not_Aborted: "class_attribute_category_entry category c n \<noteq> Aborted"
  by (simp add: class_attribute_category_entry_def split: sum.splits option.splits)

lemma category_not_Aborted: "tplg_parse_class_attribute_category cfg c category \<noteq> Aborted"
  unfolding tplg_parse_class_attribute_category_def
  by (rule for_each_not_Aborted) (rule category_entry_not_Aborted)

lemma categories_entry_unique:
  assumes "node_id n = Some ''unique''"
  shows "class_attribute_categories_entry (category, c) n =
     (case snd_config_get_string n of
        Inl _ \<Rightarrow> Aborted
      | Inr s \<Rightarrow>
         (case tplg_get_attribute_by_name (attribute_list c) s of
            None \<Rightarrow> Done (category, c)
          | Some p \<Rightarrow> Done (category, or_mask c p TPLG_CLASS_ATTRIBUTE_MASK_UNIQUE)))"
  using assms by (simp add: class_attribute_categories_entry_def snd_config_get_id_def)

lemma categories_entry_not_Aborted:
  assumes "node_id n = Some ''unique'' \<longrightarrow> (\<exists>s. node_val n = STRING s)"
  shows "class_attribute_categories_entry st n \<noteq> Aborted"
proof (cases "node_id n = Some ''unique''")
  case True
  with assms obtain s where "node_val n = STRING s" by blast
  with True show ?thesis
    by (cases st) (simp add: categories_entry_unique snd_config_get_string_def split: option.splits)
next
  case False
  then show ?thesis
    using category_not_Aborted
    by (auto simp add: class_attribute_categories_entry_def snd_config_get_id_def Let_def
        split: option.splits outcome.splits)
qed

text \<open>
  The loop of \<^verbatim>\<open>tplg_parse_class_attribute_category\<close> on a class of three attributes
  with distinct names, when the second attribute is not among the listed names.
\<close>

lemma category_three:
  assumes "distinct [attr_name A, attr_name B, attr_name C]"
    and "map node_val ns = map STRING names"
    and "attr_name B \<notin> set names"
  shows "snd_config_for_each (class_attribute_category_entry category) (c\<lparr>attribute_list := [A, B, C]\<rparr>) ns
     = Done (c\<lparr>attribute_list :=
          [if attr_name A \<in> set names then with_mask category A else A, B,
           if attr_name C \<in> set names then with_mask category C else C]\<rparr>)"
  using assms
proof (induction ns arbitrary: names A C)
  case Nil
  then show ?case by simp
next
  case (Cons n ns)
  then obtain s rest where names: "names = s # rest" and n: "node_val n = STRING s"
    and rest: "map node_val ns = map STRING rest"
    by (cases names) auto
  from Cons.prems names have b: "s \<noteq> attr_name B" "attr_name B \<notin> set rest"
    by auto
  have step: "class_attribute_category_entry category (c\<lparr>attribute_list := [A, B, C]\<rparr>) n
     = Done (c\<lparr>attribute_list :=
          [if s = attr_name A then with_mask category A else A, B,
           if s = attr_name C then with_mask category C else C]\<rparr>)"
    using Cons.prems(1) n b(1)
    by (auto simp add: class_attribute_category_entry_def snd_config_get_string_def or_mask_def)
  have d: "distinct [attr_name (if s = attr_name A then with_mask category A else A), attr_name B,
                     attr_name (if s = attr_name C then with_mask category C else C)]"
    using Cons.prems(1) by auto
  show ?case
    using Cons.IH [OF d rest b(2)] step names Cons.prems(1)
    by auto
qed

text \<open>
  C7. A class has the attribute sequence [A, B, C] with distinct names, and the
  attributes node has one child \<^verbatim>\<open>mandatory\<close> whose entries are strings: the names of
  A and of C are among them, the name of B is not, and any other listed name is free
  (so it may match no attribute). Then the classifier returns success and the class is
  as before except for the masks of A and C, which are the old masks OR'd with
  \<^verbatim>\<open>TPLG_CLASS_ATTRIBUTE_MASK_MANDATORY\<close>: bit 1, the Mandatory bit, is set in them and
  every other bit is as it was. B, its mask included, is unchanged. And an entry whose
  string is the name of no attribute of a class returns success and leaves the class as
  it is.
\<close>

theorem C7_mandatory_category_applies_to_named:
  assumes "attribute_list c = [A, B, C]"
    and "distinct [attr_name A, attr_name B, attr_name C]"
    and "map node_val ns = map STRING names"
    and "attr_name A \<in> set names" and "attr_name C \<in> set names"
    and "attr_name B \<notin> set names"
  shows "tplg_parse_class_attribute_categories
           (Node i (COMPOUND [Node (Some ''mandatory'') (COMPOUND ns)])) c
         = Done (c\<lparr>attribute_list :=
             [A\<lparr>constraint := (constraint A)
                  \<lparr>mask := mask (constraint A) OR TPLG_CLASS_ATTRIBUTE_MASK_MANDATORY\<rparr>\<rparr>,
              B,
              C\<lparr>constraint := (constraint C)
                  \<lparr>mask := mask (constraint C) OR TPLG_CLASS_ATTRIBUTE_MASK_MANDATORY\<rparr>\<rparr>]\<rparr>)
       \<and> bit (mask (constraint A) OR TPLG_CLASS_ATTRIBUTE_MASK_MANDATORY) 1
       \<and> bit (mask (constraint C) OR TPLG_CLASS_ATTRIBUTE_MASK_MANDATORY) 1
       \<and> (\<forall>k. k \<noteq> 1 \<longrightarrow>
             bit (mask (constraint A) OR TPLG_CLASS_ATTRIBUTE_MASK_MANDATORY) k = bit (mask (constraint A)) k
           \<and> bit (mask (constraint C) OR TPLG_CLASS_ATTRIBUTE_MASK_MANDATORY) k = bit (mask (constraint C)) k)
       \<and> ((\<forall>attr \<in> set (attribute_list c'). attr_name attr \<noteq> s)
           \<longrightarrow> class_attribute_category_entry category c' (Node j (STRING s)) = Done c')"
proof (intro conjI)
  have c: "c = c\<lparr>attribute_list := [A, B, C]\<rparr>"
    using assms(1) by simp
  have "snd_config_for_each (class_attribute_category_entry TPLG_CLASS_ATTRIBUTE_MASK_MANDATORY) c ns
     = Done (c\<lparr>attribute_list :=
             [with_mask TPLG_CLASS_ATTRIBUTE_MASK_MANDATORY A, B,
              with_mask TPLG_CLASS_ATTRIBUTE_MASK_MANDATORY C]\<rparr>)"
    using category_three [OF assms(2,3,6), of TPLG_CLASS_ATTRIBUTE_MASK_MANDATORY c] assms(4,5) c
    by simp
  then have "tplg_parse_class_attribute_categories
           (Node i (COMPOUND [Node (Some ''mandatory'') (COMPOUND ns)])) c
         = Done (c\<lparr>attribute_list :=
             [with_mask TPLG_CLASS_ATTRIBUTE_MASK_MANDATORY A, B,
              with_mask TPLG_CLASS_ATTRIBUTE_MASK_MANDATORY C]\<rparr>)"
    by (simp add: tplg_parse_class_attribute_categories_def class_attribute_categories_entry_def
        tplg_parse_class_attribute_category_def snd_config_get_id_def
        TPLG_CLASS_ATTRIBUTE_MASK_MANDATORY_def)
  then show "tplg_parse_class_attribute_categories
           (Node i (COMPOUND [Node (Some ''mandatory'') (COMPOUND ns)])) c
         = Done (c\<lparr>attribute_list :=
             [A\<lparr>constraint := (constraint A)
                  \<lparr>mask := mask (constraint A) OR TPLG_CLASS_ATTRIBUTE_MASK_MANDATORY\<rparr>\<rparr>,
              B,
              C\<lparr>constraint := (constraint C)
                  \<lparr>mask := mask (constraint C) OR TPLG_CLASS_ATTRIBUTE_MASK_MANDATORY\<rparr>\<rparr>]\<rparr>)"
    by (simp add: with_mask_def)
next
  show "bit (mask (constraint A) OR TPLG_CLASS_ATTRIBUTE_MASK_MANDATORY) 1"
    by (simp add: TPLG_CLASS_ATTRIBUTE_MASK_MANDATORY_def bit_simps)
  show "bit (mask (constraint C) OR TPLG_CLASS_ATTRIBUTE_MASK_MANDATORY) 1"
    by (simp add: TPLG_CLASS_ATTRIBUTE_MASK_MANDATORY_def bit_simps)
  show "\<forall>k. k \<noteq> 1 \<longrightarrow>
             bit (mask (constraint A) OR TPLG_CLASS_ATTRIBUTE_MASK_MANDATORY) k = bit (mask (constraint A)) k
           \<and> bit (mask (constraint C) OR TPLG_CLASS_ATTRIBUTE_MASK_MANDATORY) k = bit (mask (constraint C)) k"
    by (auto simp add: TPLG_CLASS_ATTRIBUTE_MASK_MANDATORY_def bit_simps)
  show "(\<forall>attr \<in> set (attribute_list c'). attr_name attr \<noteq> s)
           \<longrightarrow> class_attribute_category_entry category c' (Node j (STRING s)) = Done c'"
    by (simp add: class_attribute_category_entry_def snd_config_get_string_def
        get_attribute_None [symmetric])
qed

text \<open>
  An instance: the attributes a, b and c with empty masks, and a \<^verbatim>\<open>mandatory\<close> child
  listing a, zz and c, where zz names no attribute. The masks of a and c become 2, the
  mask of b stays 0.
\<close>

theorem C7_mandatory_category_applies_to_named_witness:
  "attribute_list \<lparr>class_name = ''Foo'', num_args = 0,
       attribute_list = [init_attribute TPLG_CLASS_PARAM_TYPE_ATTRIBUTE ''a'',
                         init_attribute TPLG_CLASS_PARAM_TYPE_ATTRIBUTE ''b'',
                         init_attribute TPLG_CLASS_PARAM_TYPE_ATTRIBUTE ''c'']\<rparr>
     = [init_attribute TPLG_CLASS_PARAM_TYPE_ATTRIBUTE ''a'',
        init_attribute TPLG_CLASS_PARAM_TYPE_ATTRIBUTE ''b'',
        init_attribute TPLG_CLASS_PARAM_TYPE_ATTRIBUTE ''c'']
   \<and> distinct [attr_name (init_attribute TPLG_CLASS_PARAM_TYPE_ATTRIBUTE ''a''),
               attr_name (init_attribute TPLG_CLASS_PARAM_TYPE_ATTRIBUTE ''b''),
               attr_name (init_attribute TPLG_CLASS_PARAM_TYPE_ATTRIBUTE ''c'')]
   \<and> map node_val [Node (Some ''0'') (STRING ''a''), Node (Some ''1'') (STRING ''zz''),
                    Node (Some ''2'') (STRING ''c'')]
       = map STRING [''a'', ''zz'', ''c'']
   \<and> attr_name (init_attribute TPLG_CLASS_PARAM_TYPE_ATTRIBUTE ''a'') \<in> set [''a'', ''zz'', ''c'']
   \<and> attr_name (init_attribute TPLG_CLASS_PARAM_TYPE_ATTRIBUTE ''c'') \<in> set [''a'', ''zz'', ''c'']
   \<and> attr_name (init_attribute TPLG_CLASS_PARAM_TYPE_ATTRIBUTE ''b'') \<notin> set [''a'', ''zz'', ''c'']
   \<and> tplg_parse_class_attribute_categories
        (Node (Some ''attributes'') (COMPOUND [Node (Some ''mandatory'')
           (COMPOUND [Node (Some ''0'') (STRING ''a''), Node (Some ''1'') (STRING ''zz''),
                      Node (Some ''2'') (STRING ''c'')])]))
        \<lparr>class_name = ''Foo'', num_args = 0,
         attribute_list = [init_attribute TPLG_CLASS_PARAM_TYPE_ATTRIBUTE ''a'',
                           init_attribute TPLG_CLASS_PARAM_TYPE_ATTRIBUTE ''b'',
                           init_attribute TPLG_CLASS_PARAM_TYPE_ATTRIBUTE ''c'']\<rparr>
       = Done \<lparr>class_name = ''Foo'', num_args = 0,
           attribute_list =
             [\<lparr>attr_name = ''a'', param_type = TPLG_CLASS_PARAM_TYPE_ATTRIBUTE, token_ref = [],
               constraint = \<lparr>value_list = [], mask = 2, c_min = INT_MIN, c_max = INT_MAX\<rparr>\<rparr>,
              \<lparr>attr_name = ''b'', param_type = TPLG_CLASS_PARAM_TYPE_ATTRIBUTE, token_ref = [],
               constraint = \<lparr>value_list = [], mask = 0, c_min = INT_MIN, c_max = INT_MAX\<rparr>\<rparr>,
              \<lparr>attr_name = ''c'', param_type = TPLG_CLASS_PARAM_TYPE_ATTRIBUTE, token_ref = [],
               constraint = \<lparr>value_list = [], mask = 2, c_min = INT_MIN, c_max = INT_MAX\<rparr>\<rparr>]\<rparr>
   \<and> ''zz'' \<notin> set (map attr_name (attribute_list \<lparr>class_name = ''Foo'', num_args = 0,
         attribute_list = [init_attribute TPLG_CLASS_PARAM_TYPE_ATTRIBUTE ''a'']\<rparr>))
   \<and> class_attribute_category_entry TPLG_CLASS_ATTRIBUTE_MASK_MANDATORY
        \<lparr>class_name = ''Foo'', num_args = 0,
         attribute_list = [init_attribute TPLG_CLASS_PARAM_TYPE_ATTRIBUTE ''a'']\<rparr>
        (Node (Some ''1'') (STRING ''zz''))
       = Done \<lparr>class_name = ''Foo'', num_args = 0,
           attribute_list = [init_attribute TPLG_CLASS_PARAM_TYPE_ATTRIBUTE ''a'']\<rparr>"
proof -
  let ?a = "init_attribute TPLG_CLASS_PARAM_TYPE_ATTRIBUTE ''a''"
  let ?b = "init_attribute TPLG_CLASS_PARAM_TYPE_ATTRIBUTE ''b''"
  let ?c = "init_attribute TPLG_CLASS_PARAM_TYPE_ATTRIBUTE ''c''"
  let ?cls = "\<lparr>class_name = ''Foo'', num_args = 0, attribute_list = [?a, ?b, ?c]\<rparr>"
  let ?cls' = "\<lparr>class_name = ''Foo'', num_args = 0, attribute_list = [?a]\<rparr>"
  let ?ns = "[Node (Some ''0'') (STRING ''a''), Node (Some ''1'') (STRING ''zz''),
              Node (Some ''2'') (STRING ''c'')]"
  let ?names = "[''a'', ''zz'', ''c'']"
  have h1: "attribute_list ?cls = [?a, ?b, ?c]" by simp
  have h2: "distinct [attr_name ?a, attr_name ?b, attr_name ?c]"
    by (simp add: init_attribute_def constant_defs)
  have h3: "map node_val ?ns = map STRING ?names" by simp
  have h4: "attr_name ?a \<in> set ?names" by (simp add: init_attribute_def constant_defs)
  have h5: "attr_name ?c \<in> set ?names" by (simp add: init_attribute_def constant_defs)
  have h6: "attr_name ?b \<notin> set ?names" by (simp add: init_attribute_def constant_defs)
  have h7: "\<forall>attr \<in> set (attribute_list ?cls'). attr_name attr \<noteq> ''zz''"
    by (simp add: init_attribute_def constant_defs)
  have g7: "''zz'' \<notin> set (map attr_name (attribute_list ?cls'))"
    by (simp add: init_attribute_def constant_defs)
  note inst = C7_mandatory_category_applies_to_named [OF h1 h2 h3 h4 h5 h6,
      where i = "Some ''attributes''" and c' = ?cls' and s = "''zz''"
        and category = TPLG_CLASS_ATTRIBUTE_MASK_MANDATORY and j = "Some ''1''"]
  from inst [THEN conjunct1]
  have c1: "tplg_parse_class_attribute_categories
        (Node (Some ''attributes'') (COMPOUND [Node (Some ''mandatory'') (COMPOUND ?ns)])) ?cls
       = Done \<lparr>class_name = ''Foo'', num_args = 0,
           attribute_list =
             [\<lparr>attr_name = ''a'', param_type = TPLG_CLASS_PARAM_TYPE_ATTRIBUTE, token_ref = [],
               constraint = \<lparr>value_list = [], mask = 2, c_min = INT_MIN, c_max = INT_MAX\<rparr>\<rparr>,
              \<lparr>attr_name = ''b'', param_type = TPLG_CLASS_PARAM_TYPE_ATTRIBUTE, token_ref = [],
               constraint = \<lparr>value_list = [], mask = 0, c_min = INT_MIN, c_max = INT_MAX\<rparr>\<rparr>,
              \<lparr>attr_name = ''c'', param_type = TPLG_CLASS_PARAM_TYPE_ATTRIBUTE, token_ref = [],
               constraint = \<lparr>value_list = [], mask = 2, c_min = INT_MIN, c_max = INT_MAX\<rparr>\<rparr>]\<rparr>"
    by (simp add: init_attribute_def constant_defs)
  from inst h7 have c2: "class_attribute_category_entry TPLG_CLASS_ATTRIBUTE_MASK_MANDATORY ?cls'
        (Node (Some ''1'') (STRING ''zz'')) = Done ?cls'"
    by blast
  show ?thesis
    by (intro conjI h1 h2 h3 h4 h5 h6 c1 g7 c2)
qed

text \<open>
  C9. When the loop of the classifier reaches a child with the id \<^verbatim>\<open>unique\<close> whose
  value is not a string, the assertion fails: the function does not return an error, the
  process is aborted. When every child \<^verbatim>\<open>unique\<close> of the attributes node holds a
  string, the classifier is never aborted. And on a child \<^verbatim>\<open>unique\<close> holding a string
  the body of the loop does not fail: the loop goes on, with the category left as it
  was.
\<close>

theorem C9_unique_assertion:
  "(snd_config_for_each class_attribute_categories_entry (0, c) pre = Done st
      \<and> node_id n = Some ''unique'' \<and> (\<forall>s. node_val n \<noteq> STRING s)
    \<longrightarrow> tplg_parse_class_attribute_categories (Node i (COMPOUND (pre @ n # post))) c = Aborted)
   \<and> ((\<forall>m \<in> set (children cfg). node_id m = Some ''unique'' \<longrightarrow> (\<exists>s. node_val m = STRING s))
    \<longrightarrow> tplg_parse_class_attribute_categories cfg c \<noteq> Aborted)
   \<and> (node_id n' = Some ''unique'' \<and> node_val n' = STRING s'
    \<longrightarrow> (\<exists>c'. class_attribute_categories_entry (category, c) n' = Done (category, c')))"
proof (intro conjI impI)
  assume a: "snd_config_for_each class_attribute_categories_entry (0, c) pre = Done st
      \<and> node_id n = Some ''unique'' \<and> (\<forall>s. node_val n \<noteq> STRING s)"
  then have "class_attribute_categories_entry st n = Aborted"
    by (cases st) (simp add: categories_entry_unique snd_config_get_string_def
        split: snd_config_val.splits)
  with a show "tplg_parse_class_attribute_categories (Node i (COMPOUND (pre @ n # post))) c = Aborted"
    by (simp add: tplg_parse_class_attribute_categories_def for_each_append)
next
  assume "\<forall>m \<in> set (children cfg). node_id m = Some ''unique'' \<longrightarrow> (\<exists>s. node_val m = STRING s)"
  then have "snd_config_for_each class_attribute_categories_entry (0, c) (children cfg) \<noteq> Aborted"
    by (intro for_each_not_Aborted categories_entry_not_Aborted) blast
  then show "tplg_parse_class_attribute_categories cfg c \<noteq> Aborted"
    by (simp add: tplg_parse_class_attribute_categories_def split: outcome.splits)
next
  assume "node_id n' = Some ''unique'' \<and> node_val n' = STRING s'"
  then show "\<exists>c'. class_attribute_categories_entry (category, c) n' = Done (category, c')"
    by (simp add: categories_entry_unique snd_config_get_string_def split: option.splits)
qed

text \<open>
  An instance: after a \<^verbatim>\<open>mandatory\<close> child that is processed, a child \<^verbatim>\<open>unique\<close>
  holding the integer 1 aborts; a child \<^verbatim>\<open>unique\<close> holding the string a does not.
\<close>

theorem C9_unique_assertion_witness:
  "(snd_config_for_each class_attribute_categories_entry
       (0, \<lparr>class_name = ''Foo'', num_args = 0,
            attribute_list = [init_attribute TPLG_CLASS_PARAM_TYPE_ATTRIBUTE ''a'']\<rparr>)
       [Node (Some ''mandatory'') (COMPOUND [Node (Some ''0'') (STRING ''a'')])]
     = Done (TPLG_CLASS_ATTRIBUTE_MASK_MANDATORY, \<lparr>class_name = ''Foo'', num_args = 0,
            attribute_list = [with_mask TPLG_CLASS_ATTRIBUTE_MASK_MANDATORY
                                (init_attribute TPLG_CLASS_PARAM_TYPE_ATTRIBUTE ''a'')]\<rparr>)
    \<and> node_id (Node (Some ''unique'') (INTEGER 1)) = Some ''unique''
    \<and> (\<forall>s. node_val (Node (Some ''unique'') (INTEGER 1)) \<noteq> STRING s))
   \<and> tplg_parse_class_attribute_categories
       (Node (Some ''attributes'')
          (COMPOUND ([Node (Some ''mandatory'') (COMPOUND [Node (Some ''0'') (STRING ''a'')])]
                     @ Node (Some ''unique'') (INTEGER 1) # [])))
       \<lparr>class_name = ''Foo'', num_args = 0,
        attribute_list = [init_attribute TPLG_CLASS_PARAM_TYPE_ATTRIBUTE ''a'']\<rparr>
     = Aborted
   \<and> map node_val (filter (\<lambda>m. node_id m = Some ''unique'')
          (children (Node (Some ''attributes'') (COMPOUND [Node (Some ''unique'') (STRING ''a'')]))))
       = [STRING ''a'']
   \<and> tplg_parse_class_attribute_categories
       (Node (Some ''attributes'') (COMPOUND [Node (Some ''unique'') (STRING ''a'')]))
       \<lparr>class_name = ''Foo'', num_args = 0,
        attribute_list = [init_attribute TPLG_CLASS_PARAM_TYPE_ATTRIBUTE ''a'']\<rparr>
     \<noteq> Aborted
   \<and> (node_id (Node (Some ''unique'') (STRING ''a'')) = Some ''unique''
      \<and> node_val (Node (Some ''unique'') (STRING ''a'')) = STRING ''a'')
   \<and> (\<exists>c'. class_attribute_categories_entry
         (TPLG_CLASS_ATTRIBUTE_MASK_MANDATORY, \<lparr>class_name = ''Foo'', num_args = 0,
            attribute_list = [init_attribute TPLG_CLASS_PARAM_TYPE_ATTRIBUTE ''a'']\<rparr>)
         (Node (Some ''unique'') (STRING ''a''))
       = Done (TPLG_CLASS_ATTRIBUTE_MASK_MANDATORY, c'))"
proof -
  let ?cls = "\<lparr>class_name = ''Foo'', num_args = 0,
        attribute_list = [init_attribute TPLG_CLASS_PARAM_TYPE_ATTRIBUTE ''a'']\<rparr>"
  let ?st = "(TPLG_CLASS_ATTRIBUTE_MASK_MANDATORY, \<lparr>class_name = ''Foo'', num_args = 0,
            attribute_list = [with_mask TPLG_CLASS_ATTRIBUTE_MASK_MANDATORY
                                (init_attribute TPLG_CLASS_PARAM_TYPE_ATTRIBUTE ''a'')]\<rparr>)"
  let ?pre = "[Node (Some ''mandatory'') (COMPOUND [Node (Some ''0'') (STRING ''a'')])]"
  let ?n = "Node (Some ''unique'') (INTEGER 1)"
  let ?n' = "Node (Some ''unique'') (STRING ''a'')"
  let ?cfg = "Node (Some ''attributes'') (COMPOUND [?n'])"
  have h1: "snd_config_for_each class_attribute_categories_entry (0, ?cls) ?pre = Done ?st
    \<and> node_id ?n = Some ''unique'' \<and> (\<forall>s. node_val ?n \<noteq> STRING s)"
    by (simp add: compiler_defs reader_defs constant_defs)
  have h2: "\<forall>m \<in> set (children ?cfg). node_id m = Some ''unique'' \<longrightarrow> (\<exists>s. node_val m = STRING s)"
    by simp
  have h3: "node_id ?n' = Some ''unique'' \<and> node_val ?n' = STRING ''a''"
    by simp
  note inst = C9_unique_assertion [where c = ?cls and pre = ?pre and st = ?st and n = ?n
      and i = "Some ''attributes''" and post = "[]" and cfg = ?cfg and n' = ?n' and s' = "''a''"
      and category = TPLG_CLASS_ATTRIBUTE_MASK_MANDATORY]
  from inst h1 have c1: "tplg_parse_class_attribute_categories
       (Node (Some ''attributes'') (COMPOUND (?pre @ ?n # []))) ?cls = Aborted"
    by blast
  from inst h2 have c2: "tplg_parse_class_attribute_categories ?cfg ?cls \<noteq> Aborted"
    by blast
  from inst h3 have c3: "\<exists>c'. class_attribute_categories_entry
         (TPLG_CLASS_ATTRIBUTE_MASK_MANDATORY, ?cls) ?n'
       = Done (TPLG_CLASS_ATTRIBUTE_MASK_MANDATORY, c')"
    by blast
  have g2: "map node_val (filter (\<lambda>m. node_id m = Some ''unique'') (children ?cfg)) = [STRING ''a'']"
    by simp
  show ?thesis
    by (intro conjI h1 [THEN conjunct1] h1 [THEN conjunct2, THEN conjunct1]
        h1 [THEN conjunct2, THEN conjunct2] c1 g2 c2 h3 [THEN conjunct1] h3 [THEN conjunct2] c3)
qed

text \<open>
  C2. The claim is that a child of the attributes node whose id is not one of the five
  category ids applies no mask bit, whatever ids came before it. The code keeps the
  variable \<^verbatim>\<open>category\<close> across the children: after \<^verbatim>\<open>mandatory\<close> listing a, a child
  \<^verbatim>\<open>foo\<close> listing b passes the test \<^verbatim>\<open>if (!category) continue\<close> with the category of
  the child before, and b gets the Mandatory bit.
\<close>

theorem C2_unknown_id_applies_previous_category:
  "tplg_parse_class_attribute_categories
     (Node (Some ''attributes'')
        (COMPOUND [Node (Some ''mandatory'') (COMPOUND [Node (Some ''0'') (STRING ''a'')]),
                   Node (Some ''foo'') (COMPOUND [Node (Some ''0'') (STRING ''b'')])]))
     \<lparr>class_name = ''Foo'', num_args = 0,
      attribute_list =
        [\<lparr>attr_name = ''a'', param_type = TPLG_CLASS_PARAM_TYPE_ATTRIBUTE, token_ref = [],
          constraint = \<lparr>value_list = [], mask = 0, c_min = INT_MIN, c_max = INT_MAX\<rparr>\<rparr>,
         \<lparr>attr_name = ''b'', param_type = TPLG_CLASS_PARAM_TYPE_ATTRIBUTE, token_ref = [],
          constraint = \<lparr>value_list = [], mask = 0, c_min = INT_MIN, c_max = INT_MAX\<rparr>\<rparr>]\<rparr>
   = Done \<lparr>class_name = ''Foo'', num_args = 0,
      attribute_list =
        [\<lparr>attr_name = ''a'', param_type = TPLG_CLASS_PARAM_TYPE_ATTRIBUTE, token_ref = [],
          constraint = \<lparr>value_list = [], mask = TPLG_CLASS_ATTRIBUTE_MASK_MANDATORY,
                        c_min = INT_MIN, c_max = INT_MAX\<rparr>\<rparr>,
         \<lparr>attr_name = ''b'', param_type = TPLG_CLASS_PARAM_TYPE_ATTRIBUTE, token_ref = [],
          constraint = \<lparr>value_list = [], mask = TPLG_CLASS_ATTRIBUTE_MASK_MANDATORY,
                        c_min = INT_MIN, c_max = INT_MAX\<rparr>\<rparr>]\<rparr>"
  by (simp add: compiler_defs reader_defs constant_defs)

section \<open>Valid values and their tuple values\<close>

lemma update_value_ref_first:
  assumes "\<forall>x \<in> set xs. ref_id x \<noteq> i" and "ref_id r = i"
  shows "update_value_ref i v (xs @ r # ys) = xs @ r\<lparr>ref_value := v\<rparr> # ys"
  using assms by (induction xs) auto

lemma update_value_ref_none:
  assumes "\<forall>x \<in> set rs. ref_id x \<noteq> i"
  shows "update_value_ref i v rs = rs"
  using assms by (induction rs) auto

lemma valid_value_ref_snoc:
  assumes "tplg_parse_constraint_valid_value_ref (Node j (COMPOUND pre)) attr = Done attr1"
  shows "tplg_parse_constraint_valid_value_ref (Node j (COMPOUND (pre @ [n]))) attr
     = valid_value_ref_entry attr1 n"
  using assms
  by (simp add: tplg_parse_constraint_valid_value_ref_def for_each_append split: outcome.splits)

lemma valid_values_snoc:
  assumes "tplg_parse_constraint_valid_values (Node j (COMPOUND pre)) attr = Done attr1"
  shows "tplg_parse_constraint_valid_values (Node j (COMPOUND (pre @ n # post))) attr
     = (case valid_values_entry attr1 n of
          Done attr2 \<Rightarrow> snd_config_for_each valid_values_entry attr2 post
        | Failed e attr2 \<Rightarrow> Failed e attr2
        | Aborted \<Rightarrow> Aborted)"
  using assms
  by (simp add: tplg_parse_constraint_valid_values_def for_each_append split: outcome.splits)

lemma ucast_scast_atoi: "(ucast (scast (w :: c_int) :: c_long) :: c_int) = w"
  by (rule bit_word_eqI) (auto simp add: bit_simps)

lemma reference_value_INTEGER: "node_val n = INTEGER x \<Longrightarrow> reference_value n = Inr x"
  by (simp add: reference_value_def reader_defs)

lemma reference_value_digits:
  "node_val n = STRING (d # s) \<Longrightarrow> isdigit_c d \<Longrightarrow> reference_value n = Inr (scast (atoi (d # s)))"
  by (simp add: reference_value_def reader_defs)

lemma reference_value_other:
  assumes "\<forall>x. node_val n \<noteq> INTEGER x"
    and "\<forall>d s. node_val n = STRING (d # s) \<longrightarrow> \<not> isdigit_c d"
  shows "reference_value n = Inl EINVAL"
  using assms
  by (cases "node_val n") (auto simp add: reference_value_def reader_defs split: list.splits)

text \<open>
  C5, as the claim states it, fails on the code: an entry whose value is a string that
  does not begin with a digit makes \<^verbatim>\<open>tplg_parse_constraint_valid_value_ref\<close> return
  \<^verbatim>\<open>-EINVAL\<close>, whether a ValueRef with its id exists or not. With no ValueRef named
  duplex, the entry duplex with the string capture raises an error; with a ValueRef
  named playback, the entry playback with the string -5 raises an error and playback is
  not overwritten.
\<close>

theorem C5_tuple_value_counterexample:
  "tplg_parse_constraint_valid_value_ref
      (Node (Some ''tuple_values'') (COMPOUND [Node (Some ''duplex'') (STRING ''capture'')]))
      \<lparr>attr_name = ''dir'', param_type = TPLG_CLASS_PARAM_TYPE_ARGUMENT, token_ref = [],
       constraint = \<lparr>value_list = [\<lparr>ref_id = ''capture'', ref_string = ''capture'', ref_value = - 22\<rparr>,
                                    \<lparr>ref_id = ''playback'', ref_string = ''playback'', ref_value = - 22\<rparr>],
                     mask = 0, c_min = INT_MIN, c_max = INT_MAX\<rparr>\<rparr>
     = Failed EINVAL
      \<lparr>attr_name = ''dir'', param_type = TPLG_CLASS_PARAM_TYPE_ARGUMENT, token_ref = [],
       constraint = \<lparr>value_list = [\<lparr>ref_id = ''capture'', ref_string = ''capture'', ref_value = - 22\<rparr>,
                                    \<lparr>ref_id = ''playback'', ref_string = ''playback'', ref_value = - 22\<rparr>],
                     mask = 0, c_min = INT_MIN, c_max = INT_MAX\<rparr>\<rparr>
   \<and> ''duplex'' \<notin> set (map ref_id
        [\<lparr>ref_id = ''capture'', ref_string = ''capture'', ref_value = - 22 :: c_int\<rparr>,
         \<lparr>ref_id = ''playback'', ref_string = ''playback'', ref_value = - 22\<rparr>])
   \<and> tplg_parse_constraint_valid_value_ref
      (Node (Some ''tuple_values'') (COMPOUND [Node (Some ''playback'') (STRING ''-5'')]))
      \<lparr>attr_name = ''dir'', param_type = TPLG_CLASS_PARAM_TYPE_ARGUMENT, token_ref = [],
       constraint = \<lparr>value_list = [\<lparr>ref_id = ''capture'', ref_string = ''capture'', ref_value = - 22\<rparr>,
                                    \<lparr>ref_id = ''playback'', ref_string = ''playback'', ref_value = - 22\<rparr>],
                     mask = 0, c_min = INT_MIN, c_max = INT_MAX\<rparr>\<rparr>
     = Failed EINVAL
      \<lparr>attr_name = ''dir'', param_type = TPLG_CLASS_PARAM_TYPE_ARGUMENT, token_ref = [],
       constraint = \<lparr>value_list = [\<lparr>ref_id = ''capture'', ref_string = ''capture'', ref_value = - 22\<rparr>,
                                    \<lparr>ref_id = ''playback'', ref_string = ''playback'', ref_value = - 22\<rparr>],
                     mask = 0, c_min = INT_MIN, c_max = INT_MAX\<rparr>\<rparr>"
  by (simp add: tplg_parse_constraint_valid_value_ref_def valid_value_ref_entry_def
      reference_value_def reader_defs isdigit_c_def)

text \<open>
  C5, amended. A \<^verbatim>\<open>tuple_values\<close> entry whose id is read, met after the entries before
  it have been processed. If its value is an integer, or a string that begins with a
  decimal digit, the entry's value is that integer cut to an \<^verbatim>\<open>int\<close>, or \<^verbatim>\<open>atoi\<close> of
  the string: if the valid-value list holds a ValueRef with the entry's id, the first
  such ValueRef gets the value and every other entry of the list stays as it is; if the
  list holds none, the function returns success and the attribute is unchanged, so no
  ValueRef is created and none changes. If its value is neither (a string that does not
  begin with a digit, the empty string, or a value of another type), the block fails
  with \<^verbatim>\<open>-EINVAL\<close>, whatever entries follow, and the attribute is as the entries before
  left it.
\<close>

theorem C5_tuple_value_resolves_first_match:
  assumes "tplg_parse_constraint_valid_value_ref (Node j (COMPOUND pre)) attr = Done attr1"
    and "node_id n = Some i"
  shows "((node_val n = INTEGER x \<and> v = ucast x
            \<or> node_val n = STRING (d # s) \<and> isdigit_c d \<and> v = atoi (d # s))
          \<longrightarrow> (value_list (constraint attr1) = xs @ r # ys \<and> (\<forall>y \<in> set xs. ref_id y \<noteq> i) \<and> ref_id r = i
                \<longrightarrow> tplg_parse_constraint_valid_value_ref (Node j (COMPOUND (pre @ [n]))) attr
                     = Done (attr1\<lparr>constraint := (constraint attr1)
                                \<lparr>value_list := xs @ r\<lparr>ref_value := v\<rparr> # ys\<rparr>\<rparr>))
             \<and> ((\<forall>y \<in> set (value_list (constraint attr1)). ref_id y \<noteq> i)
                \<longrightarrow> tplg_parse_constraint_valid_value_ref (Node j (COMPOUND (pre @ [n]))) attr
                     = Done attr1))
       \<and> ((\<forall>x. node_val n \<noteq> INTEGER x) \<and> (\<forall>d s. node_val n = STRING (d # s) \<longrightarrow> \<not> isdigit_c d)
          \<longrightarrow> tplg_parse_constraint_valid_value_ref (Node j (COMPOUND (pre @ n # post))) attr
               = Failed EINVAL attr1)"
proof (intro conjI impI)
  assume val: "node_val n = INTEGER x \<and> v = ucast x
            \<or> node_val n = STRING (d # s) \<and> isdigit_c d \<and> v = atoi (d # s)"
  then obtain w where w: "reference_value n = Inr w" and v: "v = ucast w"
    using reference_value_INTEGER reference_value_digits ucast_scast_atoi by metis
  have entry: "valid_value_ref_entry attr1 n
     = Done (attr1\<lparr>constraint := (constraint attr1)
               \<lparr>value_list := update_value_ref i v (value_list (constraint attr1))\<rparr>\<rparr>)"
    using assms(2) w v by (simp add: valid_value_ref_entry_def snd_config_get_id_def)
  {
    assume "value_list (constraint attr1) = xs @ r # ys \<and> (\<forall>y \<in> set xs. ref_id y \<noteq> i) \<and> ref_id r = i"
    then show "tplg_parse_constraint_valid_value_ref (Node j (COMPOUND (pre @ [n]))) attr
                     = Done (attr1\<lparr>constraint := (constraint attr1)
                                \<lparr>value_list := xs @ r\<lparr>ref_value := v\<rparr> # ys\<rparr>\<rparr>)"
      by (simp add: valid_value_ref_snoc [OF assms(1)] entry update_value_ref_first)
  }
  {
    assume "\<forall>y \<in> set (value_list (constraint attr1)). ref_id y \<noteq> i"
    then show "tplg_parse_constraint_valid_value_ref (Node j (COMPOUND (pre @ [n]))) attr = Done attr1"
      by (simp add: valid_value_ref_snoc [OF assms(1)] entry update_value_ref_none)
  }
next
  assume "(\<forall>x. node_val n \<noteq> INTEGER x) \<and> (\<forall>d s. node_val n = STRING (d # s) \<longrightarrow> \<not> isdigit_c d)"
  then have "reference_value n = Inl EINVAL"
    by (intro reference_value_other) simp_all
  then have "valid_value_ref_entry attr1 n = Failed EINVAL attr1"
    using assms(2) by (simp add: valid_value_ref_entry_def snd_config_get_id_def)
  moreover have "snd_config_for_each valid_value_ref_entry attr pre = Done attr1"
    using assms(1) by (simp add: tplg_parse_constraint_valid_value_ref_def)
  ultimately show "tplg_parse_constraint_valid_value_ref (Node j (COMPOUND (pre @ n # post))) attr
               = Failed EINVAL attr1"
    by (simp add: tplg_parse_constraint_valid_value_ref_def for_each_fails_at)
qed

text \<open>
  An instance: the list holds capture and playback, both unresolved. The entry
  playback with the string 7 resolves playback, the second entry of the list, to 7; the
  entry duplex with the integer 2 matches nothing and changes nothing; the entry
  playback with the string -5 fails the block, and the entry after it is not processed.
\<close>

theorem C5_tuple_value_resolves_first_match_witness:
  "tplg_parse_constraint_valid_value_ref (Node (Some ''tuple_values'') (COMPOUND []))
      \<lparr>attr_name = ''dir'', param_type = TPLG_CLASS_PARAM_TYPE_ARGUMENT, token_ref = [],
       constraint = \<lparr>value_list = [\<lparr>ref_id = ''capture'', ref_string = ''capture'', ref_value = - 22\<rparr>,
                                    \<lparr>ref_id = ''playback'', ref_string = ''playback'', ref_value = - 22\<rparr>],
                     mask = 0, c_min = INT_MIN, c_max = INT_MAX\<rparr>\<rparr>
     = Done \<lparr>attr_name = ''dir'', param_type = TPLG_CLASS_PARAM_TYPE_ARGUMENT, token_ref = [],
       constraint = \<lparr>value_list = [\<lparr>ref_id = ''capture'', ref_string = ''capture'', ref_value = - 22\<rparr>,
                                    \<lparr>ref_id = ''playback'', ref_string = ''playback'', ref_value = - 22\<rparr>],
                     mask = 0, c_min = INT_MIN, c_max = INT_MAX\<rparr>\<rparr>
   \<and> node_id (Node (Some ''playback'') (STRING ''7'')) = Some ''playback''
   \<and> node_val (Node (Some ''playback'') (STRING ''7'')) = STRING (CHR ''7'' # [])
   \<and> isdigit_c CHR ''7''
   \<and> (7 :: c_int) = atoi (CHR ''7'' # [])
   \<and> ''playback'' \<notin> set (map ref_id
         [\<lparr>ref_id = ''capture'', ref_string = ''capture'', ref_value = - 22 :: c_int\<rparr>])
   \<and> tplg_parse_constraint_valid_value_ref
        (Node (Some ''tuple_values'') (COMPOUND ([] @ [Node (Some ''playback'') (STRING ''7'')])))
      \<lparr>attr_name = ''dir'', param_type = TPLG_CLASS_PARAM_TYPE_ARGUMENT, token_ref = [],
       constraint = \<lparr>value_list = [\<lparr>ref_id = ''capture'', ref_string = ''capture'', ref_value = - 22\<rparr>,
                                    \<lparr>ref_id = ''playback'', ref_string = ''playback'', ref_value = - 22\<rparr>],
                     mask = 0, c_min = INT_MIN, c_max = INT_MAX\<rparr>\<rparr>
     = Done \<lparr>attr_name = ''dir'', param_type = TPLG_CLASS_PARAM_TYPE_ARGUMENT, token_ref = [],
       constraint = \<lparr>value_list = [\<lparr>ref_id = ''capture'', ref_string = ''capture'', ref_value = - 22\<rparr>,
                                    \<lparr>ref_id = ''playback'', ref_string = ''playback'', ref_value = 7\<rparr>],
                     mask = 0, c_min = INT_MIN, c_max = INT_MAX\<rparr>\<rparr>
   \<and> node_id (Node (Some ''duplex'') (INTEGER 2)) = Some ''duplex''
   \<and> node_val (Node (Some ''duplex'') (INTEGER 2)) = INTEGER 2
   \<and> ''duplex'' \<notin> set (map ref_id
         [\<lparr>ref_id = ''capture'', ref_string = ''capture'', ref_value = - 22 :: c_int\<rparr>,
          \<lparr>ref_id = ''playback'', ref_string = ''playback'', ref_value = - 22\<rparr>])
   \<and> tplg_parse_constraint_valid_value_ref
        (Node (Some ''tuple_values'') (COMPOUND ([] @ [Node (Some ''duplex'') (INTEGER 2)])))
      \<lparr>attr_name = ''dir'', param_type = TPLG_CLASS_PARAM_TYPE_ARGUMENT, token_ref = [],
       constraint = \<lparr>value_list = [\<lparr>ref_id = ''capture'', ref_string = ''capture'', ref_value = - 22\<rparr>,
                                    \<lparr>ref_id = ''playback'', ref_string = ''playback'', ref_value = - 22\<rparr>],
                     mask = 0, c_min = INT_MIN, c_max = INT_MAX\<rparr>\<rparr>
     = Done \<lparr>attr_name = ''dir'', param_type = TPLG_CLASS_PARAM_TYPE_ARGUMENT, token_ref = [],
       constraint = \<lparr>value_list = [\<lparr>ref_id = ''capture'', ref_string = ''capture'', ref_value = - 22\<rparr>,
                                    \<lparr>ref_id = ''playback'', ref_string = ''playback'', ref_value = - 22\<rparr>],
                     mask = 0, c_min = INT_MIN, c_max = INT_MAX\<rparr>\<rparr>
   \<and> node_id (Node (Some ''playback'') (STRING ''-5'')) = Some ''playback''
   \<and> (\<forall>x. node_val (Node (Some ''playback'') (STRING ''-5'')) \<noteq> INTEGER x)
   \<and> \<not> isdigit_c CHR ''-''
   \<and> tplg_parse_constraint_valid_value_ref
        (Node (Some ''tuple_values'')
           (COMPOUND ([] @ Node (Some ''playback'') (STRING ''-5'') # [Node (Some ''capture'') (INTEGER 1)])))
      \<lparr>attr_name = ''dir'', param_type = TPLG_CLASS_PARAM_TYPE_ARGUMENT, token_ref = [],
       constraint = \<lparr>value_list = [\<lparr>ref_id = ''capture'', ref_string = ''capture'', ref_value = - 22\<rparr>,
                                    \<lparr>ref_id = ''playback'', ref_string = ''playback'', ref_value = - 22\<rparr>],
                     mask = 0, c_min = INT_MIN, c_max = INT_MAX\<rparr>\<rparr>
     = Failed EINVAL \<lparr>attr_name = ''dir'', param_type = TPLG_CLASS_PARAM_TYPE_ARGUMENT, token_ref = [],
       constraint = \<lparr>value_list = [\<lparr>ref_id = ''capture'', ref_string = ''capture'', ref_value = - 22\<rparr>,
                                    \<lparr>ref_id = ''playback'', ref_string = ''playback'', ref_value = - 22\<rparr>],
                     mask = 0, c_min = INT_MIN, c_max = INT_MAX\<rparr>\<rparr>"
proof -
  let ?capture = "\<lparr>ref_id = ''capture'', ref_string = ''capture'', ref_value = - 22 :: c_int\<rparr>"
  let ?playback = "\<lparr>ref_id = ''playback'', ref_string = ''playback'', ref_value = - 22 :: c_int\<rparr>"
  let ?attr = "\<lparr>attr_name = ''dir'', param_type = TPLG_CLASS_PARAM_TYPE_ARGUMENT, token_ref = [],
       constraint = \<lparr>value_list = [?capture, ?playback],
                     mask = 0, c_min = INT_MIN, c_max = INT_MAX\<rparr>\<rparr>"
  let ?n = "Node (Some ''playback'') (STRING ''7'')"
  let ?m = "Node (Some ''duplex'') (INTEGER 2)"
  let ?f = "Node (Some ''playback'') (STRING ''-5'')"
  have h1: "tplg_parse_constraint_valid_value_ref (Node (Some ''tuple_values'') (COMPOUND [])) ?attr
     = Done ?attr"
    by (simp add: tplg_parse_constraint_valid_value_ref_def)
  have h2: "node_id ?n = Some ''playback''" by simp
  have h3: "node_val ?n = STRING (CHR ''7'' # [])" by simp
  have h3a: "isdigit_c CHR ''7''" by (simp add: isdigit_c_def)
  have h3b: "(7 :: c_int) = atoi (CHR ''7'' # [])" by (simp add: atoi_def isdigit_c_def)
  have h4: "\<forall>y \<in> set [?capture]. ref_id y \<noteq> ''playback''" by simp
  have g4: "''playback'' \<notin> set (map ref_id [?capture])" by simp
  have h5: "node_id ?m = Some ''duplex''" by simp
  have h6: "node_val ?m = INTEGER 2" by simp
  have h6a: "(2 :: c_int) = ucast (2 :: c_long)" by simp
  have h7: "\<forall>y \<in> set (value_list (constraint ?attr)). ref_id y \<noteq> ''duplex''" by simp
  have g7: "''duplex'' \<notin> set (map ref_id [?capture, ?playback])" by simp
  have h8: "node_id ?f = Some ''playback''" by simp
  have h9: "\<forall>x. node_val ?f \<noteq> INTEGER x" by simp
  have h9a: "\<not> isdigit_c CHR ''-''" by (simp add: isdigit_c_def)
  have h10: "\<forall>d s. node_val ?f = STRING (d # s) \<longrightarrow> \<not> isdigit_c d"
    using h9a by simp
  have v1: "node_val ?n = INTEGER x \<and> (7 :: c_int) = ucast x
            \<or> node_val ?n = STRING (CHR ''7'' # []) \<and> isdigit_c CHR ''7'' \<and> (7 :: c_int) = atoi (CHR ''7'' # [])" for x
    using h3 h3a h3b by blast
  have v2: "node_val ?m = INTEGER 2 \<and> (2 :: c_int) = ucast (2 :: c_long)
            \<or> node_val ?m = STRING (d # s) \<and> isdigit_c d \<and> (2 :: c_int) = atoi (d # s)" for d s
    using h6 h6a by blast
  note first = C5_tuple_value_resolves_first_match [OF h1 h2, where v = 7 and d = "CHR ''7''" and s = "[]"
      and xs = "[?capture]" and r = ?playback and ys = "[]",
      THEN conjunct1, THEN mp, OF v1, THEN conjunct1]
  note second = C5_tuple_value_resolves_first_match [OF h1 h5, where v = 2 and x = 2,
      THEN conjunct1, THEN mp, OF v2, THEN conjunct2, THEN mp, OF h7]
  note third = C5_tuple_value_resolves_first_match [OF h1 h8, where post = "[Node (Some ''capture'') (INTEGER 1)]",
      THEN conjunct2, THEN mp, OF conjI [OF h9 h10]]
  from first h4 have c1: "tplg_parse_constraint_valid_value_ref
        (Node (Some ''tuple_values'') (COMPOUND ([] @ [?n]))) ?attr
     = Done \<lparr>attr_name = ''dir'', param_type = TPLG_CLASS_PARAM_TYPE_ARGUMENT, token_ref = [],
       constraint = \<lparr>value_list = [?capture,
                                    \<lparr>ref_id = ''playback'', ref_string = ''playback'', ref_value = 7\<rparr>],
                     mask = 0, c_min = INT_MIN, c_max = INT_MAX\<rparr>\<rparr>"
    by simp
  show ?thesis
    by (intro conjI h1 h2 h3 h3a h3b g4 c1 h5 h6 g7 second h8 h9 h9a third)
qed

text \<open>
  C3, as the claim states it, fails on the code: \<^verbatim>\<open>tplg_parse_constraint_valid_values\<close>
  reads every entry as a string, so an integer-typed entry fails the build of the
  constraint, and a string that begins with a digit is stored as a string with the
  value left unresolved, not parsed.
\<close>

theorem C3_valid_values_counterexample:
  "tplg_parse_class_constraints
     (Node (Some ''constraints'')
        (COMPOUND [Node (Some ''valid_values'') (COMPOUND [Node (Some ''five'') (INTEGER 5)])]))
     (init_attribute TPLG_CLASS_PARAM_TYPE_ARGUMENT ''rate'')
   = Failed EINVAL (init_attribute TPLG_CLASS_PARAM_TYPE_ARGUMENT ''rate'')
   \<and> tplg_parse_class_constraints
     (Node (Some ''constraints'')
        (COMPOUND [Node (Some ''valid_values'') (COMPOUND [Node (Some ''five'') (STRING ''5'')])]))
     (init_attribute TPLG_CLASS_PARAM_TYPE_ARGUMENT ''rate'')
   = Done ((init_attribute TPLG_CLASS_PARAM_TYPE_ARGUMENT ''rate'')
       \<lparr>constraint := \<lparr>value_list = [\<lparr>ref_id = ''five'', ref_string = ''5'', ref_value = - 22\<rparr>],
                        mask = 0, c_min = INT_MIN, c_max = INT_MAX\<rparr>\<rparr>)
   \<and> (- 22 :: c_int) \<noteq> 5"
  by (simp add: compiler_defs reader_defs constant_defs)

text \<open>
  C3, amended. For an entry of a \<^verbatim>\<open>valid_values\<close> block whose id is read, met after
  the entries before it have been processed: if its value is a string, whatever the
  first character, a ValueRef with the entry's id, the string and the unresolved value
  \<^verbatim>\<open>-EINVAL\<close> is put at the front of the valid-value list; if its value is not a
  string, integers included, the block fails with the reader's error, no ValueRef is
  stored for the entry, and the build of the constraint fails with that error.
\<close>

theorem C3_valid_values_entry:
  assumes "tplg_parse_constraint_valid_values (Node j (COMPOUND pre)) attr = Done attr1"
    and "node_id n = Some i"
  shows "(node_val n = STRING s
          \<longrightarrow> tplg_parse_constraint_valid_values (Node j (COMPOUND (pre @ [n]))) attr
               = Done (attr1\<lparr>constraint := (constraint attr1)
                   \<lparr>value_list := \<lparr>ref_id = i, ref_string = s, ref_value = neg_EINVAL\<rparr>
                                    # value_list (constraint attr1)\<rparr>\<rparr>))
       \<and> ((\<forall>s. node_val n \<noteq> STRING s)
          \<longrightarrow> tplg_parse_constraint_valid_values (Node j (COMPOUND (pre @ n # post))) attr
               = Failed EINVAL attr1
            \<and> tplg_parse_class_constraints
                 (Node k (COMPOUND [Node (Some ''valid_values'') (COMPOUND (pre @ n # post))])) attr
               = Failed EINVAL attr1)"
proof (intro conjI impI)
  assume "node_val n = STRING s"
  then show "tplg_parse_constraint_valid_values (Node j (COMPOUND (pre @ [n]))) attr
               = Done (attr1\<lparr>constraint := (constraint attr1)
                   \<lparr>value_list := \<lparr>ref_id = i, ref_string = s, ref_value = neg_EINVAL\<rparr>
                                    # value_list (constraint attr1)\<rparr>\<rparr>)"
    using assms(2)
    by (simp add: valid_values_snoc [OF assms(1)] valid_values_entry_def reader_defs)
next
  assume ns: "\<forall>s. node_val n \<noteq> STRING s"
  then have "valid_values_entry attr1 n = Failed EINVAL attr1"
    using assms(2)
    by (simp add: valid_values_entry_def reader_defs split: snd_config_val.splits)
  then show f: "tplg_parse_constraint_valid_values (Node j (COMPOUND (pre @ n # post))) attr
               = Failed EINVAL attr1"
    by (simp add: valid_values_snoc [OF assms(1)])
  have "tplg_parse_constraint_valid_values (Node (Some ''valid_values'') (COMPOUND (pre @ n # post))) attr
               = Failed EINVAL attr1"
    using f by (simp add: tplg_parse_constraint_valid_values_def)
  then show "tplg_parse_class_constraints
                 (Node k (COMPOUND [Node (Some ''valid_values'') (COMPOUND (pre @ n # post))])) attr
               = Failed EINVAL attr1"
    by (simp add: tplg_parse_class_constraints_def class_constraints_entry_def reader_defs)
qed

text \<open>
  An instance: after the entry playback, the entry two with the string 2 is stored
  unresolved at the front; the entry five with the integer 5 fails the block and the
  constraint.
\<close>

theorem C3_valid_values_entry_witness:
  "tplg_parse_constraint_valid_values
      (Node (Some ''valid_values'') (COMPOUND [Node (Some ''playback'') (STRING ''playback'')]))
      (init_attribute TPLG_CLASS_PARAM_TYPE_ARGUMENT ''dir'')
     = Done \<lparr>attr_name = ''dir'', param_type = TPLG_CLASS_PARAM_TYPE_ARGUMENT, token_ref = [],
         constraint = \<lparr>value_list = [\<lparr>ref_id = ''playback'', ref_string = ''playback'', ref_value = neg_EINVAL\<rparr>],
                       mask = 0, c_min = INT_MIN, c_max = INT_MAX\<rparr>\<rparr>
   \<and> node_id (Node (Some ''two'') (STRING ''2'')) = Some ''two''
   \<and> node_val (Node (Some ''two'') (STRING ''2'')) = STRING ''2''
   \<and> tplg_parse_constraint_valid_values
      (Node (Some ''valid_values'')
         (COMPOUND ([Node (Some ''playback'') (STRING ''playback'')] @ [Node (Some ''two'') (STRING ''2'')])))
      (init_attribute TPLG_CLASS_PARAM_TYPE_ARGUMENT ''dir'')
     = Done \<lparr>attr_name = ''dir'', param_type = TPLG_CLASS_PARAM_TYPE_ARGUMENT, token_ref = [],
         constraint = \<lparr>value_list = [\<lparr>ref_id = ''two'', ref_string = ''2'', ref_value = neg_EINVAL\<rparr>,
                                      \<lparr>ref_id = ''playback'', ref_string = ''playback'', ref_value = neg_EINVAL\<rparr>],
                       mask = 0, c_min = INT_MIN, c_max = INT_MAX\<rparr>\<rparr>
   \<and> node_id (Node (Some ''five'') (INTEGER 5)) = Some ''five''
   \<and> (\<forall>s. node_val (Node (Some ''five'') (INTEGER 5)) \<noteq> STRING s)
   \<and> tplg_parse_constraint_valid_values
      (Node (Some ''valid_values'')
         (COMPOUND ([Node (Some ''playback'') (STRING ''playback'')] @ Node (Some ''five'') (INTEGER 5)
                      # [Node (Some ''two'') (STRING ''2'')])))
      (init_attribute TPLG_CLASS_PARAM_TYPE_ARGUMENT ''dir'')
     = Failed EINVAL \<lparr>attr_name = ''dir'', param_type = TPLG_CLASS_PARAM_TYPE_ARGUMENT, token_ref = [],
         constraint = \<lparr>value_list = [\<lparr>ref_id = ''playback'', ref_string = ''playback'', ref_value = neg_EINVAL\<rparr>],
                       mask = 0, c_min = INT_MIN, c_max = INT_MAX\<rparr>\<rparr>
   \<and> tplg_parse_class_constraints
      (Node (Some ''constraints'') (COMPOUND [Node (Some ''valid_values'')
         (COMPOUND ([Node (Some ''playback'') (STRING ''playback'')] @ Node (Some ''five'') (INTEGER 5)
                      # [Node (Some ''two'') (STRING ''2'')]))]))
      (init_attribute TPLG_CLASS_PARAM_TYPE_ARGUMENT ''dir'')
     = Failed EINVAL \<lparr>attr_name = ''dir'', param_type = TPLG_CLASS_PARAM_TYPE_ARGUMENT, token_ref = [],
         constraint = \<lparr>value_list = [\<lparr>ref_id = ''playback'', ref_string = ''playback'', ref_value = neg_EINVAL\<rparr>],
                       mask = 0, c_min = INT_MIN, c_max = INT_MAX\<rparr>\<rparr>"
proof -
  let ?attr = "init_attribute TPLG_CLASS_PARAM_TYPE_ARGUMENT ''dir''"
  let ?playback = "\<lparr>ref_id = ''playback'', ref_string = ''playback'', ref_value = neg_EINVAL\<rparr>"
  let ?attr1 = "\<lparr>attr_name = ''dir'', param_type = TPLG_CLASS_PARAM_TYPE_ARGUMENT, token_ref = [],
         constraint = \<lparr>value_list = [?playback], mask = 0, c_min = INT_MIN, c_max = INT_MAX\<rparr>\<rparr>"
  let ?pre = "[Node (Some ''playback'') (STRING ''playback'')]"
  let ?n = "Node (Some ''two'') (STRING ''2'')"
  let ?m = "Node (Some ''five'') (INTEGER 5)"
  have h1: "tplg_parse_constraint_valid_values (Node (Some ''valid_values'') (COMPOUND ?pre)) ?attr
     = Done ?attr1"
    by (simp add: tplg_parse_constraint_valid_values_def valid_values_entry_def reader_defs
        init_attribute_def SNDRV_CTL_ELEM_ID_NAME_MAXLEN_def snd_strlcpy_def)
  have h2: "node_id ?n = Some ''two''" by simp
  have h3: "node_val ?n = STRING ''2''" by simp
  have h4: "node_id ?m = Some ''five''" by simp
  have h5: "\<forall>s. node_val ?m \<noteq> STRING s" by simp
  note first = C3_valid_values_entry [OF h1 h2, where s = "''2''", THEN conjunct1, THEN mp, OF h3]
  note second = C3_valid_values_entry [OF h1 h4, where post = "[?n]" and k = "Some ''constraints''",
      THEN conjunct2, THEN mp, OF h5]
  from first have c1: "tplg_parse_constraint_valid_values
      (Node (Some ''valid_values'') (COMPOUND (?pre @ [?n]))) ?attr
     = Done \<lparr>attr_name = ''dir'', param_type = TPLG_CLASS_PARAM_TYPE_ARGUMENT, token_ref = [],
         constraint = \<lparr>value_list = [\<lparr>ref_id = ''two'', ref_string = ''2'', ref_value = neg_EINVAL\<rparr>, ?playback],
                       mask = 0, c_min = INT_MIN, c_max = INT_MAX\<rparr>\<rparr>"
    by simp
  show ?thesis
    by (intro conjI h1 h2 h3 c1 h4 h5 second [THEN conjunct1] second [THEN conjunct2])
qed

section \<open>Default bounds\<close>

lemma valid_values_entry_bounds:
  "valid_values_entry attr n = Done attr' \<Longrightarrow> bounds attr' = bounds attr"
  by (auto simp add: valid_values_entry_def bounds_def split: sum.splits)

lemma valid_value_ref_entry_bounds:
  "valid_value_ref_entry attr n = Done attr' \<Longrightarrow> bounds attr' = bounds attr"
  by (auto simp add: valid_value_ref_entry_def bounds_def split: sum.splits)

lemma valid_values_bounds:
  "tplg_parse_constraint_valid_values cfg attr = Done attr' \<Longrightarrow> bounds attr' = bounds attr"
  unfolding tplg_parse_constraint_valid_values_def
  by (erule for_each_Done_invariant) (rule valid_values_entry_bounds)

lemma valid_value_ref_bounds:
  "tplg_parse_constraint_valid_value_ref cfg attr = Done attr' \<Longrightarrow> bounds attr' = bounds attr"
  unfolding tplg_parse_constraint_valid_value_ref_def
  by (erule for_each_Done_invariant) (rule valid_value_ref_entry_bounds)

lemma class_constraints_entry_bounds:
  assumes "class_constraints_entry attr n = Done attr'"
    and "node_id n \<noteq> Some ''min''" and "node_id n \<noteq> Some ''max''"
  shows "bounds attr' = bounds attr"
  using assms
  by (auto simp add: class_constraints_entry_def snd_config_get_id_def
      split: option.splits if_splits dest: valid_values_bounds valid_value_ref_bounds)

lemma class_constraints_bounds:
  assumes "tplg_parse_class_constraints cfg attr = Done attr'"
    and "\<forall>m \<in> set (children cfg). node_id m \<noteq> Some ''min'' \<and> node_id m \<noteq> Some ''max''"
  shows "bounds attr' = bounds attr"
  using assms(1) unfolding tplg_parse_class_constraints_def
  by (rule for_each_Done_invariant) (use assms(2) in \<open>auto intro: class_constraints_entry_bounds\<close>)

lemma bounds_token_ref: "bounds (attr\<lparr>token_ref := t\<rparr>) = bounds attr"
  by (simp add: bounds_def)

lemma class_attribute_entry_bounds:
  assumes "class_attribute_entry attr n = Done attr'"
    and "node_id n = Some ''constraints'' \<longrightarrow>
           (\<forall>m \<in> set (children n). node_id m \<noteq> Some ''min'' \<and> node_id m \<noteq> Some ''max'')"
  shows "bounds attr' = bounds attr"
  using assms
  by (auto simp add: class_attribute_entry_def snd_config_get_id_def bounds_token_ref
      split: option.splits if_splits outcome.splits sum.splits dest: class_constraints_bounds)

lemma class_attribute_bounds:
  assumes "tplg_parse_class_attribute n attr = Done attr'" and "\<not> declares_bound n"
  shows "bounds attr' = bounds attr"
  using assms(1) unfolding tplg_parse_class_attribute_def
  by (rule for_each_Done_invariant)
    (use assms(2) in \<open>auto simp add: declares_bound_def intro!: class_attribute_entry_bounds\<close>)

text \<open>
  C8. An attribute is built from its definition node by \<^verbatim>\<open>tplg_parse_class_attribute\<close>
  on the attribute that \<^verbatim>\<open>tplg_parse_class_attributes\<close> initialises. When the node has
  no \<^verbatim>\<open>constraints.min\<close> and no \<^verbatim>\<open>constraints.max\<close> child and the build succeeds,
  the bounds of the built attribute are \<^verbatim>\<open>INT_MIN\<close> and \<^verbatim>\<open>INT_MAX\<close>, that is
  \<open>- 2\<^sup>3\<^sup>1\<close> and \<open>2\<^sup>3\<^sup>1 - 1\<close>, and every \<^verbatim>\<open>int\<close> lies between them.
\<close>

theorem C8_default_bounds:
  assumes "tplg_parse_class_attribute n (init_attribute type i) = Done attr"
    and "\<not> declares_bound n"
  shows "c_min (constraint attr) = INT_MIN \<and> c_max (constraint attr) = INT_MAX
       \<and> sint (c_min (constraint attr)) = - (2 ^ 31) \<and> sint (c_max (constraint attr)) = 2 ^ 31 - 1
       \<and> (\<forall>x :: c_int. sint (c_min (constraint attr)) \<le> sint x \<and> sint x \<le> sint (c_max (constraint attr)))"
proof -
  have "bounds attr = bounds (init_attribute type i)"
    using assms by (rule class_attribute_bounds)
  then have b: "c_min (constraint attr) = INT_MIN" "c_max (constraint attr) = INT_MAX"
    by (simp_all add: bounds_def init_attribute_def)
  have lo: "sint INT_MIN = - (2 ^ 31)" and hi: "sint INT_MAX = 2 ^ 31 - 1"
    by (simp_all add: INT_MIN_def INT_MAX_def)
  have "- (2 ^ 31) \<le> sint x \<and> sint x \<le> 2 ^ 31 - 1" for x :: c_int
    using sint_ge [of x] sint_lt [of x] by simp
  with b lo hi show ?thesis by simp
qed

text \<open>
  An instance: an attribute with a token reference and a valid value, and no bounds.
\<close>

theorem C8_default_bounds_witness:
  "tplg_parse_class_attribute
      (Node (Some ''dir'')
         (COMPOUND [Node (Some ''token_ref'') (STRING ''sof_tkn_dai.word''),
                    Node (Some ''constraints'')
                      (COMPOUND [Node (Some ''valid_values'')
                                   (COMPOUND [Node (Some ''playback'') (STRING ''playback'')])])]))
      (init_attribute TPLG_CLASS_PARAM_TYPE_ARGUMENT ''dir'')
     = Done \<lparr>attr_name = ''dir'', param_type = TPLG_CLASS_PARAM_TYPE_ARGUMENT,
             token_ref = ''sof_tkn_dai.word'',
             constraint = \<lparr>value_list = [\<lparr>ref_id = ''playback'', ref_string = ''playback'', ref_value = - 22\<rparr>],
                           mask = 0, c_min = - (2 ^ 31), c_max = 2 ^ 31 - 1\<rparr>\<rparr>
   \<and> \<not> declares_bound
      (Node (Some ''dir'')
         (COMPOUND [Node (Some ''token_ref'') (STRING ''sof_tkn_dai.word''),
                    Node (Some ''constraints'')
                      (COMPOUND [Node (Some ''valid_values'')
                                   (COMPOUND [Node (Some ''playback'') (STRING ''playback'')])])]))
   \<and> c_min (constraint \<lparr>attr_name = ''dir'', param_type = TPLG_CLASS_PARAM_TYPE_ARGUMENT,
             token_ref = ''sof_tkn_dai.word'',
             constraint = \<lparr>value_list = [\<lparr>ref_id = ''playback'', ref_string = ''playback'', ref_value = - 22\<rparr>],
                           mask = 0, c_min = - (2 ^ 31), c_max = 2 ^ 31 - 1\<rparr>\<rparr>) = INT_MIN
   \<and> c_max (constraint \<lparr>attr_name = ''dir'', param_type = TPLG_CLASS_PARAM_TYPE_ARGUMENT,
             token_ref = ''sof_tkn_dai.word'',
             constraint = \<lparr>value_list = [\<lparr>ref_id = ''playback'', ref_string = ''playback'', ref_value = - 22\<rparr>],
                           mask = 0, c_min = - (2 ^ 31), c_max = 2 ^ 31 - 1\<rparr>\<rparr>) = INT_MAX"
proof -
  let ?n = "Node (Some ''dir'')
         (COMPOUND [Node (Some ''token_ref'') (STRING ''sof_tkn_dai.word''),
                    Node (Some ''constraints'')
                      (COMPOUND [Node (Some ''valid_values'')
                                   (COMPOUND [Node (Some ''playback'') (STRING ''playback'')])])])"
  let ?attr = "\<lparr>attr_name = ''dir'', param_type = TPLG_CLASS_PARAM_TYPE_ARGUMENT,
             token_ref = ''sof_tkn_dai.word'',
             constraint = \<lparr>value_list = [\<lparr>ref_id = ''playback'', ref_string = ''playback'', ref_value = - 22 :: c_int\<rparr>],
                           mask = 0, c_min = - (2 ^ 31), c_max = 2 ^ 31 - 1\<rparr>\<rparr>"
  have h1: "tplg_parse_class_attribute ?n (init_attribute TPLG_CLASS_PARAM_TYPE_ARGUMENT ''dir'') = Done ?attr"
    by (simp add: compiler_defs reader_defs constant_defs)
  have h2: "\<not> declares_bound ?n"
    by (simp add: declares_bound_def)
  note inst = C8_default_bounds [OF h1 h2]
  show ?thesis
    by (intro conjI h1 h2 inst [THEN conjunct1] inst [THEN conjunct2, THEN conjunct1])
qed

section \<open>Declaration order\<close>

subsection \<open>The attributes of a class\<close>

lemma or_mask_names: "attribute_names (or_mask c p category) = attribute_names c"
proof (cases "p < length (attribute_list c)")
  case True
  then show ?thesis
    by (simp add: attribute_names_def or_mask_def map_update list_update_same_conv)
next
  case False
  then show ?thesis
    by (simp add: attribute_names_def or_mask_def list_update_beyond)
qed

lemma category_entry_names:
  "class_attribute_category_entry category c n = Done c' \<Longrightarrow> attribute_names c' = attribute_names c"
  by (auto simp add: class_attribute_category_entry_def or_mask_names split: sum.splits option.splits)

lemma category_names:
  "tplg_parse_class_attribute_category cfg c category = Done c' \<Longrightarrow> attribute_names c' = attribute_names c"
  unfolding tplg_parse_class_attribute_category_def
  by (erule for_each_Done_invariant) (rule category_entry_names)

lemma categories_entry_names:
  "class_attribute_categories_entry st n = Done st' \<Longrightarrow> attribute_names (snd st') = attribute_names (snd st)"
  by (auto simp add: class_attribute_categories_entry_def Let_def or_mask_names
      split: sum.splits option.splits if_splits outcome.splits dest: category_names)

lemma categories_names:
  assumes "tplg_parse_class_attribute_categories cfg c = Done c'"
  shows "attribute_names c' = attribute_names c"
proof -
  from assms obtain st where st: "snd_config_for_each class_attribute_categories_entry (0, c) (children cfg) = Done st"
    and c': "c' = snd st"
    by (auto simp add: tplg_parse_class_attribute_categories_def split: outcome.splits)
  have "attribute_names (snd st) = attribute_names (snd (0 :: c_int, c))"
    using st by (rule for_each_Done_invariant) (rule categories_entry_names)
  with c' show ?thesis by simp
qed

lemma concat_declared_name:
  "concat (map declared_name ns)
     = map (\<lambda>i. snd_strlcpy i SNDRV_CTL_ELEM_ID_NAME_MAXLEN) (List.map_filter node_id ns)"
  by (induction ns) (simp_all add: declared_name_def split: option.splits)

lemma valid_values_entry_name:
  "valid_values_entry attr n = Done attr' \<Longrightarrow> attr_name attr' = attr_name attr"
  by (auto simp add: valid_values_entry_def split: sum.splits)

lemma valid_value_ref_entry_name:
  "valid_value_ref_entry attr n = Done attr' \<Longrightarrow> attr_name attr' = attr_name attr"
  by (auto simp add: valid_value_ref_entry_def split: sum.splits)

lemma valid_values_name:
  "tplg_parse_constraint_valid_values cfg attr = Done attr' \<Longrightarrow> attr_name attr' = attr_name attr"
  unfolding tplg_parse_constraint_valid_values_def
  by (erule for_each_Done_invariant) (rule valid_values_entry_name)

lemma valid_value_ref_name:
  "tplg_parse_constraint_valid_value_ref cfg attr = Done attr' \<Longrightarrow> attr_name attr' = attr_name attr"
  unfolding tplg_parse_constraint_valid_value_ref_def
  by (erule for_each_Done_invariant) (rule valid_value_ref_entry_name)

lemma class_constraints_entry_name:
  "class_constraints_entry attr n = Done attr' \<Longrightarrow> attr_name attr' = attr_name attr"
  by (auto simp add: class_constraints_entry_def
      split: sum.splits if_splits dest: valid_values_name valid_value_ref_name)

lemma class_constraints_name:
  "tplg_parse_class_constraints cfg attr = Done attr' \<Longrightarrow> attr_name attr' = attr_name attr"
  unfolding tplg_parse_class_constraints_def
  by (erule for_each_Done_invariant) (rule class_constraints_entry_name)

lemma class_attribute_entry_name:
  "class_attribute_entry attr n = Done attr' \<Longrightarrow> attr_name attr' = attr_name attr"
  by (auto simp add: class_attribute_entry_def
      split: sum.splits if_splits outcome.splits dest: class_constraints_name)

lemma class_attribute_name:
  "tplg_parse_class_attribute cfg attr = Done attr' \<Longrightarrow> attr_name attr' = attr_name attr"
  unfolding tplg_parse_class_attribute_def
  by (erule for_each_Done_invariant) (rule class_attribute_entry_name)

lemma class_attributes_entry_names:
  "class_attributes_entry type c n = Done c' \<Longrightarrow> attribute_names c' = attribute_names c @ declared_name n"
  by (auto simp add: class_attributes_entry_def declared_name_def attribute_names_def snd_config_get_id_def
      Let_def init_attribute_def split: option.splits outcome.splits dest!: class_attribute_name)

lemma class_attributes_names:
  assumes "tplg_parse_class_attributes cfg c type = Done c'"
  shows "attribute_names c' = attribute_names c @ map (\<lambda>i. snd_strlcpy i SNDRV_CTL_ELEM_ID_NAME_MAXLEN)
                                (List.map_filter node_id (children cfg))"
proof -
  have "attribute_names c' = attribute_names c @ concat (map declared_name (children cfg))"
    using assms unfolding tplg_parse_class_attributes_def
    by (rule for_each_accum) (rule class_attributes_entry_names)
  then show ?thesis by (simp add: concat_declared_name)
qed

lemma define_class_entry_names:
  assumes "define_class_entry c n = Done c'"
  shows "attribute_names c' = attribute_names c @
     map (\<lambda>i. snd_strlcpy i SNDRV_CTL_ELEM_ID_NAME_MAXLEN)
       (if node_id n = Some ''DefineArgument'' \<or> node_id n = Some ''DefineAttribute''
        then List.map_filter node_id (children n) else [])"
  using assms
  by (auto simp add: define_class_entry_def snd_config_get_id_def
      split: option.splits if_splits outcome.splits
      dest: class_attributes_names categories_names)

lemma define_class_body_names:
  assumes "snd_config_for_each define_class_entry c (children cfg) = Done c'"
  shows "attribute_names c' = attribute_names c @
     map (\<lambda>i. snd_strlcpy i SNDRV_CTL_ELEM_ID_NAME_MAXLEN) (declared_attribute_names cfg)"
proof -
  have "attribute_names c' = attribute_names c @ concat (map (\<lambda>n.
     map (\<lambda>i. snd_strlcpy i SNDRV_CTL_ELEM_ID_NAME_MAXLEN)
       (if node_id n = Some ''DefineArgument'' \<or> node_id n = Some ''DefineAttribute''
        then List.map_filter node_id (children n) else [])) (children cfg))"
    using assms by (rule for_each_accum) (rule define_class_entry_names)
  then show ?thesis
    by (simp add: declared_attribute_names_def map_concat comp_def)
qed

subsection \<open>The valid values of an attribute\<close>

lemma update_value_ref_ids:
  "map (\<lambda>r. (Some (ref_id r), STRING (ref_string r))) (update_value_ref i v rs)
     = map (\<lambda>r. (Some (ref_id r), STRING (ref_string r))) rs"
  by (induction rs) auto

lemma valid_values_entry_refs:
  "valid_values_entry attr n = Done attr' \<Longrightarrow>
     declared_refs attr' = declared_refs attr @ [(node_id n, node_val n)]"
  by (auto simp add: valid_values_entry_def declared_refs_def reader_defs
      split: option.splits snd_config_val.splits)

lemma valid_value_ref_entry_refs:
  "valid_value_ref_entry attr n = Done attr' \<Longrightarrow> declared_refs attr' = declared_refs attr"
  by (auto simp add: valid_value_ref_entry_def declared_refs_def update_value_ref_ids
      split: sum.splits)

lemma valid_values_refs:
  assumes "tplg_parse_constraint_valid_values cfg attr = Done attr'"
  shows "declared_refs attr' = declared_refs attr @ map (\<lambda>e. (node_id e, node_val e)) (children cfg)"
proof -
  have "declared_refs attr' = declared_refs attr @ concat (map (\<lambda>e. [(node_id e, node_val e)]) (children cfg))"
    using assms unfolding tplg_parse_constraint_valid_values_def
    by (rule for_each_accum) (rule valid_values_entry_refs)
  moreover have "concat (map (\<lambda>e. [f e]) xs) = map f xs" for f :: "snd_config \<Rightarrow> string option \<times> snd_config_val" and xs
    by (induction xs) simp_all
  ultimately show ?thesis by simp
qed

lemma valid_value_ref_refs:
  "tplg_parse_constraint_valid_value_ref cfg attr = Done attr' \<Longrightarrow> declared_refs attr' = declared_refs attr"
  unfolding tplg_parse_constraint_valid_value_ref_def
  by (erule for_each_Done_invariant) (rule valid_value_ref_entry_refs)

lemma class_constraints_entry_refs:
  assumes "class_constraints_entry attr n = Done attr'"
  shows "declared_refs attr' = declared_refs attr @
     map (\<lambda>e. (node_id e, node_val e)) (if node_id n = Some ''valid_values'' then children n else [])"
  using assms
  by (auto simp add: class_constraints_entry_def snd_config_get_id_def declared_refs_def
      split: option.splits if_splits sum.splits
      dest: valid_values_refs [unfolded declared_refs_def] valid_value_ref_refs [unfolded declared_refs_def])

lemma class_constraints_refs:
  assumes "tplg_parse_class_constraints cfg attr = Done attr'"
  shows "declared_refs attr' = declared_refs attr @
     map (\<lambda>e. (node_id e, node_val e))
       (concat (map (\<lambda>v. if node_id v = Some ''valid_values'' then children v else []) (children cfg)))"
proof -
  have "declared_refs attr' = declared_refs attr @ concat (map (\<lambda>n.
     map (\<lambda>e. (node_id e, node_val e)) (if node_id n = Some ''valid_values'' then children n else []))
       (children cfg))"
    using assms unfolding tplg_parse_class_constraints_def
    by (rule for_each_accum) (rule class_constraints_entry_refs)
  then show ?thesis by (simp add: map_concat comp_def)
qed

lemma declared_refs_token_ref: "declared_refs (attr\<lparr>token_ref := t\<rparr>) = declared_refs attr"
  by (simp add: declared_refs_def)

lemma class_attribute_entry_refs:
  assumes "class_attribute_entry attr n = Done attr'"
  shows "declared_refs attr' = declared_refs attr @
     map (\<lambda>e. (node_id e, node_val e))
       (if node_id n = Some ''constraints''
        then concat (map (\<lambda>v. if node_id v = Some ''valid_values'' then children v else []) (children n))
        else [])"
  using assms
  by (auto simp add: class_attribute_entry_def snd_config_get_id_def declared_refs_token_ref
      split: option.splits if_splits sum.splits outcome.splits
      dest: class_constraints_refs)

lemma class_attribute_refs:
  assumes "tplg_parse_class_attribute n attr = Done attr'"
  shows "declared_refs attr' = declared_refs attr @
     map (\<lambda>e. (node_id e, node_val e)) (declared_valid_values n)"
proof -
  have "declared_refs attr' = declared_refs attr @ concat (map (\<lambda>n.
     map (\<lambda>e. (node_id e, node_val e))
       (if node_id n = Some ''constraints''
        then concat (map (\<lambda>v. if node_id v = Some ''valid_values'' then children v else []) (children n))
        else [])) (children n))"
    using assms unfolding tplg_parse_class_attribute_def
    by (rule for_each_accum) (rule class_attribute_entry_refs)
  then show ?thesis
    by (simp add: declared_valid_values_def map_concat comp_def)
qed

subsection \<open>The attributes of a class and the declarations they are built from\<close>

lemma strip_mask_with_mask [simp]: "strip_mask (with_mask category attr) = strip_mask attr"
  by (simp add: strip_mask_def with_mask_def)

lemma or_mask_stripped: "stripped (or_mask c p category) = stripped c"
proof (cases "p < length (attribute_list c)")
  case True
  then show ?thesis
    by (simp add: stripped_def or_mask_def map_update list_update_same_conv)
next
  case False
  then show ?thesis
    by (simp add: stripped_def or_mask_def list_update_beyond)
qed

lemma category_entry_stripped:
  "class_attribute_category_entry category c n = Done c' \<Longrightarrow> stripped c' = stripped c"
  by (auto simp add: class_attribute_category_entry_def or_mask_stripped split: sum.splits option.splits)

lemma category_stripped:
  "tplg_parse_class_attribute_category cfg c category = Done c' \<Longrightarrow> stripped c' = stripped c"
  unfolding tplg_parse_class_attribute_category_def
  by (erule for_each_Done_invariant) (rule category_entry_stripped)

lemma categories_entry_stripped:
  "class_attribute_categories_entry st n = Done st' \<Longrightarrow> stripped (snd st') = stripped (snd st)"
  by (auto simp add: class_attribute_categories_entry_def Let_def or_mask_stripped
      split: sum.splits option.splits if_splits outcome.splits dest: category_stripped)

lemma categories_stripped:
  assumes "tplg_parse_class_attribute_categories cfg c = Done c'"
  shows "stripped c' = stripped c"
proof -
  from assms obtain st where st: "snd_config_for_each class_attribute_categories_entry (0, c) (children cfg) = Done st"
    and c': "c' = snd st"
    by (auto simp add: tplg_parse_class_attribute_categories_def split: outcome.splits)
  have "stripped (snd st) = stripped (snd (0 :: c_int, c))"
    using st by (rule for_each_Done_invariant) (rule categories_entry_stripped)
  with c' show ?thesis by simp
qed

lemma class_attributes_entry_stripped:
  assumes "class_attributes_entry type c n = Done c'"
  shows "\<exists>ys. stripped c' = stripped c @ ys \<and> list_all2 built_from ys (declared_attribute type n)"
proof (cases "node_id n")
  case None
  with assms show ?thesis
    by (simp add: class_attributes_entry_def snd_config_get_id_def declared_attribute_def)
next
  case (Some i)
  with assms obtain b where b: "tplg_parse_class_attribute n (init_attribute type i) = Done b"
    and c': "attribute_list c' = attribute_list c @ [b]"
    by (auto simp add: class_attributes_entry_def snd_config_get_id_def Let_def
        split: outcome.splits if_splits)
  have "stripped c' = stripped c @ [strip_mask b]"
    using c' by (simp add: stripped_def)
  moreover have "list_all2 built_from [strip_mask b] (declared_attribute type n)"
    using Some b by (simp add: declared_attribute_def built_from_def)
  ultimately show ?thesis by blast
qed

lemma class_attributes_stripped:
  assumes "tplg_parse_class_attributes cfg c type = Done c'"
  shows "\<exists>ys. stripped c' = stripped c @ ys
           \<and> list_all2 built_from ys (concat (map (declared_attribute type) (children cfg)))"
  using assms unfolding tplg_parse_class_attributes_def
  by (rule for_each_accum_rel) (rule class_attributes_entry_stripped)

lemma define_class_entry_stripped:
  assumes "define_class_entry c n = Done c'"
  shows "\<exists>ys. stripped c' = stripped c @ ys \<and> list_all2 built_from ys
     (if node_id n = Some ''DefineArgument''
      then concat (map (declared_attribute TPLG_CLASS_PARAM_TYPE_ARGUMENT) (children n))
      else if node_id n = Some ''DefineAttribute''
      then concat (map (declared_attribute TPLG_CLASS_PARAM_TYPE_ATTRIBUTE) (children n))
      else [])"
proof -
  consider (arg) "node_id n = Some ''DefineArgument''" | (attr) "node_id n = Some ''DefineAttribute''"
    | (cat) "node_id n = Some ''attributes''"
    | (other) "node_id n \<noteq> Some ''DefineArgument''" "node_id n \<noteq> Some ''DefineAttribute''"
        "node_id n \<noteq> Some ''attributes''"
    by blast
  then show ?thesis
  proof cases
    case arg
    with assms have "tplg_parse_class_attributes n c TPLG_CLASS_PARAM_TYPE_ARGUMENT = Done c'"
      by (simp add: define_class_entry_def snd_config_get_id_def)
    with arg show ?thesis by (simp add: class_attributes_stripped)
  next
    case attr
    with assms have "tplg_parse_class_attributes n c TPLG_CLASS_PARAM_TYPE_ATTRIBUTE = Done c'"
      by (simp add: define_class_entry_def snd_config_get_id_def split: outcome.splits)
    with attr show ?thesis by (simp add: class_attributes_stripped)
  next
    case cat
    with assms have "tplg_parse_class_attribute_categories n c = Done c'"
      by (simp add: define_class_entry_def snd_config_get_id_def)
    then have "stripped c' = stripped c" by (rule categories_stripped)
    with cat show ?thesis by simp
  next
    case other
    with assms have "c' = c"
      by (auto simp add: define_class_entry_def snd_config_get_id_def split: option.splits)
    with other show ?thesis by simp
  qed
qed

lemma define_class_body_stripped:
  assumes "snd_config_for_each define_class_entry c (children cfg) = Done c'"
  shows "\<exists>ys. stripped c' = stripped c @ ys \<and> list_all2 built_from ys (declared_attributes cfg)"
  unfolding declared_attributes_def
  using assms by (rule for_each_accum_rel) (rule define_class_entry_stripped)

lemma strip_mask_eq:
  "strip_mask attr = strip_mask b \<Longrightarrow> attr = b\<lparr>constraint := (constraint b)\<lparr>mask := mask (constraint attr)\<rparr>\<rparr>"
  by (cases attr, cases b, cases "constraint attr", cases "constraint b") (simp add: strip_mask_def)

text \<open>
  C4. When \<^verbatim>\<open>tplg_define_class\<close> defines a new class and succeeds, the class is at the
  front of the registry, and its attribute sequence matches the declared attributes one
  to one, in declaration order: the names are the declared ids (each cut to the length
  of the name field), every attribute of the class is the attribute built from its
  definition node, up to the category mask that the classifier sets afterwards, and the
  ids and strings of its valid-value list are those of the valid values its node
  declares, in the reverse of their declaration order. The last holds of every
  attribute built from a definition node.
\<close>

theorem C4_declaration_order:
  "(node_id cfg = Some name \<and> tplg_class_lookup tplg_pp name = None
      \<and> tplg_define_class tplg_pp cfg = Done tplg_pp'
    \<longrightarrow> (\<exists>c. class_list tplg_pp' = c # class_list tplg_pp
            \<and> map attr_name (attribute_list c)
               = map (\<lambda>i. snd_strlcpy i SNDRV_CTL_ELEM_ID_NAME_MAXLEN) (declared_attribute_names cfg)
            \<and> list_all2
                (\<lambda>attr (type, i, n).
                   (case tplg_parse_class_attribute n (init_attribute type i) of
                      Done b \<Rightarrow> attr = b\<lparr>constraint := (constraint b)\<lparr>mask := mask (constraint attr)\<rparr>\<rparr>
                    | Failed _ _ \<Rightarrow> False
                    | Aborted \<Rightarrow> False)
                   \<and> attr_name attr = snd_strlcpy i SNDRV_CTL_ELEM_ID_NAME_MAXLEN
                   \<and> map (\<lambda>r. (Some (ref_id r), STRING (ref_string r))) (value_list (constraint attr))
                      = rev (map (\<lambda>e. (node_id e, node_val e)) (declared_valid_values n)))
                (attribute_list c) (declared_attributes cfg)))
   \<and> (tplg_parse_class_attribute n (init_attribute type i) = Done attr
    \<longrightarrow> map (\<lambda>r. (Some (ref_id r), STRING (ref_string r))) (value_list (constraint attr))
         = rev (map (\<lambda>e. (node_id e, node_val e)) (declared_valid_values n)))"
proof (intro conjI impI)
  assume a: "node_id cfg = Some name \<and> tplg_class_lookup tplg_pp name = None
      \<and> tplg_define_class tplg_pp cfg = Done tplg_pp'"
  let ?c0 = "\<lparr>class_name = snd_strlcpy name SNDRV_CTL_ELEM_ID_NAME_MAXLEN,
              num_args = 0, attribute_list = []\<rparr>"
  let ?P = "\<lambda>attr (type, i, n).
                   (case tplg_parse_class_attribute n (init_attribute type i) of
                      Done b \<Rightarrow> attr = b\<lparr>constraint := (constraint b)\<lparr>mask := mask (constraint attr)\<rparr>\<rparr>
                    | Failed _ _ \<Rightarrow> False
                    | Aborted \<Rightarrow> False)
                   \<and> attr_name attr = snd_strlcpy i SNDRV_CTL_ELEM_ID_NAME_MAXLEN
                   \<and> map (\<lambda>r. (Some (ref_id r), STRING (ref_string r))) (value_list (constraint attr))
                      = rev (map (\<lambda>e. (node_id e, node_val e)) (declared_valid_values n))"
  from a obtain c where body: "snd_config_for_each define_class_entry ?c0 (children cfg) = Done c"
    and pp': "tplg_pp' = tplg_pp\<lparr>class_list := c # class_list tplg_pp\<rparr>"
    by (auto simp add: tplg_define_class_def snd_config_get_id_def Let_def split: outcome.splits)
  from define_class_body_stripped [OF body]
  have "list_all2 built_from (stripped c) (declared_attributes cfg)"
    by (simp add: stripped_def)
  then have rel: "list_all2 (\<lambda>attr d. built_from (strip_mask attr) d) (attribute_list c) (declared_attributes cfg)"
    by (simp add: stripped_def list_all2_map1)
  have step: "?P attr d" if "built_from (strip_mask attr) d" for attr d
  proof -
    obtain type i n where d: "d = (type, i, n)" by (cases d)
    from that d obtain b where b: "tplg_parse_class_attribute n (init_attribute type i) = Done b"
      and eq: "strip_mask attr = strip_mask b"
      by (auto simp add: built_from_def split: outcome.splits)
    have attr: "attr = b\<lparr>constraint := (constraint b)\<lparr>mask := mask (constraint attr)\<rparr>\<rparr>"
      using eq by (rule strip_mask_eq)
    have nm: "attr_name b = snd_strlcpy i SNDRV_CTL_ELEM_ID_NAME_MAXLEN"
      using class_attribute_name [OF b] by (simp add: init_attribute_def)
    have "declared_refs b = declared_refs (init_attribute type i) @
       map (\<lambda>e. (node_id e, node_val e)) (declared_valid_values n)"
      using b by (rule class_attribute_refs)
    then have "rev (map (\<lambda>r. (Some (ref_id r), STRING (ref_string r))) (value_list (constraint b)))
       = map (\<lambda>e. (node_id e, node_val e)) (declared_valid_values n)"
      by (simp add: declared_refs_def init_attribute_def)
    then have vl: "map (\<lambda>r. (Some (ref_id r), STRING (ref_string r))) (value_list (constraint b))
         = rev (map (\<lambda>e. (node_id e, node_val e)) (declared_valid_values n))"
      by (simp add: rev_swap)
    have "attr_name attr = attr_name b" "value_list (constraint attr) = value_list (constraint b)"
      by (subst attr, simp)+
    with b attr nm vl d show ?thesis by simp
  qed
  have all: "list_all2 ?P (attribute_list c) (declared_attributes cfg)"
    using rel by (rule list_all2_mono) (rule step)
  have "attribute_names c = attribute_names ?c0 @
     map (\<lambda>i. snd_strlcpy i SNDRV_CTL_ELEM_ID_NAME_MAXLEN) (declared_attribute_names cfg)"
    using body by (rule define_class_body_names)
  then have "map attr_name (attribute_list c)
     = map (\<lambda>i. snd_strlcpy i SNDRV_CTL_ELEM_ID_NAME_MAXLEN) (declared_attribute_names cfg)"
    by (simp add: attribute_names_def)
  with pp' all show "\<exists>c. class_list tplg_pp' = c # class_list tplg_pp
            \<and> map attr_name (attribute_list c)
               = map (\<lambda>i. snd_strlcpy i SNDRV_CTL_ELEM_ID_NAME_MAXLEN) (declared_attribute_names cfg)
            \<and> list_all2 ?P (attribute_list c) (declared_attributes cfg)"
    by simp
next
  assume "tplg_parse_class_attribute n (init_attribute type i) = Done attr"
  then have "declared_refs attr = declared_refs (init_attribute type i) @
     map (\<lambda>e. (node_id e, node_val e)) (declared_valid_values n)"
    by (rule class_attribute_refs)
  then have "rev (map (\<lambda>r. (Some (ref_id r), STRING (ref_string r))) (value_list (constraint attr)))
     = map (\<lambda>e. (node_id e, node_val e)) (declared_valid_values n)"
    by (simp add: declared_refs_def init_attribute_def)
  then show "map (\<lambda>r. (Some (ref_id r), STRING (ref_string r))) (value_list (constraint attr))
         = rev (map (\<lambda>e. (node_id e, node_val e)) (declared_valid_values n))"
    by (simp add: rev_swap)
qed

text \<open>
  An instance: the class Foo declares the argument dir, with the valid values playback,
  capture and duplex, and the attribute rate, and marks dir as mandatory. The compiled
  class holds dir and rate in that order, and dir holds its valid values as duplex,
  capture, playback.
\<close>

theorem C4_declaration_order_witness:
  "(node_id (Node (Some ''Foo'')
       (COMPOUND [Node (Some ''DefineArgument'')
                    (COMPOUND [Node (Some ''dir'')
                       (COMPOUND [Node (Some ''constraints'')
                          (COMPOUND [Node (Some ''valid_values'')
                             (COMPOUND [Node (Some ''playback'') (STRING ''p''),
                                        Node (Some ''capture'') (STRING ''c''),
                                        Node (Some ''duplex'') (STRING ''d'')])])])]),
                  Node (Some ''DefineAttribute'') (COMPOUND [Node (Some ''rate'') (COMPOUND [])]),
                  Node (Some ''attributes'')
                    (COMPOUND [Node (Some ''mandatory'') (COMPOUND [Node (Some ''0'') (STRING ''dir'')])])]))
     = Some ''Foo''
    \<and> tplg_class_lookup \<lparr>class_list = []\<rparr> ''Foo'' = None
    \<and> tplg_define_class \<lparr>class_list = []\<rparr>
        (Node (Some ''Foo'')
          (COMPOUND [Node (Some ''DefineArgument'')
                    (COMPOUND [Node (Some ''dir'')
                       (COMPOUND [Node (Some ''constraints'')
                          (COMPOUND [Node (Some ''valid_values'')
                             (COMPOUND [Node (Some ''playback'') (STRING ''p''),
                                        Node (Some ''capture'') (STRING ''c''),
                                        Node (Some ''duplex'') (STRING ''d'')])])])]),
                  Node (Some ''DefineAttribute'') (COMPOUND [Node (Some ''rate'') (COMPOUND [])]),
                  Node (Some ''attributes'')
                    (COMPOUND [Node (Some ''mandatory'') (COMPOUND [Node (Some ''0'') (STRING ''dir'')])])]))
      = Done \<lparr>class_list = [\<lparr>class_name = ''Foo'', num_args = 1,
            attribute_list =
              [\<lparr>attr_name = ''dir'', param_type = TPLG_CLASS_PARAM_TYPE_ARGUMENT, token_ref = [],
                constraint = \<lparr>value_list = [\<lparr>ref_id = ''duplex'', ref_string = ''d'', ref_value = - 22\<rparr>,
                                             \<lparr>ref_id = ''capture'', ref_string = ''c'', ref_value = - 22\<rparr>,
                                             \<lparr>ref_id = ''playback'', ref_string = ''p'', ref_value = - 22\<rparr>],
                              mask = 2, c_min = INT_MIN, c_max = INT_MAX\<rparr>\<rparr>,
               \<lparr>attr_name = ''rate'', param_type = TPLG_CLASS_PARAM_TYPE_ATTRIBUTE, token_ref = [],
                constraint = \<lparr>value_list = [], mask = 0, c_min = INT_MIN, c_max = INT_MAX\<rparr>\<rparr>]\<rparr>]\<rparr>)
   \<and> declared_attributes (Node (Some ''Foo'')
          (COMPOUND [Node (Some ''DefineArgument'')
                    (COMPOUND [Node (Some ''dir'')
                       (COMPOUND [Node (Some ''constraints'')
                          (COMPOUND [Node (Some ''valid_values'')
                             (COMPOUND [Node (Some ''playback'') (STRING ''p''),
                                        Node (Some ''capture'') (STRING ''c''),
                                        Node (Some ''duplex'') (STRING ''d'')])])])]),
                  Node (Some ''DefineAttribute'') (COMPOUND [Node (Some ''rate'') (COMPOUND [])]),
                  Node (Some ''attributes'')
                    (COMPOUND [Node (Some ''mandatory'') (COMPOUND [Node (Some ''0'') (STRING ''dir'')])])]))
      = [(TPLG_CLASS_PARAM_TYPE_ARGUMENT, ''dir'',
          Node (Some ''dir'')
                       (COMPOUND [Node (Some ''constraints'')
                          (COMPOUND [Node (Some ''valid_values'')
                             (COMPOUND [Node (Some ''playback'') (STRING ''p''),
                                        Node (Some ''capture'') (STRING ''c''),
                                        Node (Some ''duplex'') (STRING ''d'')])])])),
         (TPLG_CLASS_PARAM_TYPE_ATTRIBUTE, ''rate'', Node (Some ''rate'') (COMPOUND []))]
   \<and> (\<exists>c. class_list \<lparr>class_list = [\<lparr>class_name = ''Foo'', num_args = 1,
            attribute_list =
              [\<lparr>attr_name = ''dir'', param_type = TPLG_CLASS_PARAM_TYPE_ARGUMENT, token_ref = [],
                constraint = \<lparr>value_list = [\<lparr>ref_id = ''duplex'', ref_string = ''d'', ref_value = - 22\<rparr>,
                                             \<lparr>ref_id = ''capture'', ref_string = ''c'', ref_value = - 22\<rparr>,
                                             \<lparr>ref_id = ''playback'', ref_string = ''p'', ref_value = - 22\<rparr>],
                              mask = 2, c_min = INT_MIN, c_max = INT_MAX\<rparr>\<rparr>,
               \<lparr>attr_name = ''rate'', param_type = TPLG_CLASS_PARAM_TYPE_ATTRIBUTE, token_ref = [],
                constraint = \<lparr>value_list = [], mask = 0, c_min = INT_MIN, c_max = INT_MAX\<rparr>\<rparr>]\<rparr>]\<rparr>
           = c # class_list \<lparr>class_list = []\<rparr>
         \<and> map attr_name (attribute_list c) = [''dir'', ''rate'']
         \<and> list_all2
              (\<lambda>attr (type, i, n).
                 (case tplg_parse_class_attribute n (init_attribute type i) of
                    Done b \<Rightarrow> attr = b\<lparr>constraint := (constraint b)\<lparr>mask := mask (constraint attr)\<rparr>\<rparr>
                  | Failed _ _ \<Rightarrow> False
                  | Aborted \<Rightarrow> False)
                 \<and> attr_name attr = snd_strlcpy i SNDRV_CTL_ELEM_ID_NAME_MAXLEN
                 \<and> map (\<lambda>r. (Some (ref_id r), STRING (ref_string r))) (value_list (constraint attr))
                    = rev (map (\<lambda>e. (node_id e, node_val e)) (declared_valid_values n)))
              (attribute_list c)
              [(TPLG_CLASS_PARAM_TYPE_ARGUMENT, ''dir'',
                Node (Some ''dir'')
                       (COMPOUND [Node (Some ''constraints'')
                          (COMPOUND [Node (Some ''valid_values'')
                             (COMPOUND [Node (Some ''playback'') (STRING ''p''),
                                        Node (Some ''capture'') (STRING ''c''),
                                        Node (Some ''duplex'') (STRING ''d'')])])])),
               (TPLG_CLASS_PARAM_TYPE_ATTRIBUTE, ''rate'', Node (Some ''rate'') (COMPOUND []))])
   \<and> tplg_parse_class_attribute
       (Node (Some ''dir'')
          (COMPOUND [Node (Some ''constraints'')
             (COMPOUND [Node (Some ''valid_values'')
                (COMPOUND [Node (Some ''playback'') (STRING ''p''),
                           Node (Some ''capture'') (STRING ''c''),
                           Node (Some ''duplex'') (STRING ''d'')])])]))
       (init_attribute TPLG_CLASS_PARAM_TYPE_ARGUMENT ''dir'')
      = Done \<lparr>attr_name = ''dir'', param_type = TPLG_CLASS_PARAM_TYPE_ARGUMENT, token_ref = [],
          constraint = \<lparr>value_list = [\<lparr>ref_id = ''duplex'', ref_string = ''d'', ref_value = - 22\<rparr>,
                                       \<lparr>ref_id = ''capture'', ref_string = ''c'', ref_value = - 22\<rparr>,
                                       \<lparr>ref_id = ''playback'', ref_string = ''p'', ref_value = - 22\<rparr>],
                        mask = 0, c_min = INT_MIN, c_max = INT_MAX\<rparr>\<rparr>
   \<and> map (\<lambda>r. (Some (ref_id r), STRING (ref_string r)))
       (value_list (constraint \<lparr>attr_name = ''dir'', param_type = TPLG_CLASS_PARAM_TYPE_ARGUMENT, token_ref = [],
          constraint = \<lparr>value_list = [\<lparr>ref_id = ''duplex'', ref_string = ''d'', ref_value = - 22 :: c_int\<rparr>,
                                       \<lparr>ref_id = ''capture'', ref_string = ''c'', ref_value = - 22\<rparr>,
                                       \<lparr>ref_id = ''playback'', ref_string = ''p'', ref_value = - 22\<rparr>],
                        mask = 0 :: c_int, c_min = INT_MIN, c_max = INT_MAX\<rparr>\<rparr>))
      = rev [(Some ''playback'', STRING ''p''), (Some ''capture'', STRING ''c''),
             (Some ''duplex'', STRING ''d'')]"
proof -
  let ?n = "Node (Some ''dir'')
          (COMPOUND [Node (Some ''constraints'')
             (COMPOUND [Node (Some ''valid_values'')
                (COMPOUND [Node (Some ''playback'') (STRING ''p''),
                           Node (Some ''capture'') (STRING ''c''),
                           Node (Some ''duplex'') (STRING ''d'')])])])"
  let ?rate = "Node (Some ''rate'') (COMPOUND [])"
  let ?cfg = "Node (Some ''Foo'')
       (COMPOUND [Node (Some ''DefineArgument'') (COMPOUND [?n]),
                  Node (Some ''DefineAttribute'') (COMPOUND [?rate]),
                  Node (Some ''attributes'')
                    (COMPOUND [Node (Some ''mandatory'') (COMPOUND [Node (Some ''0'') (STRING ''dir'')])])])"
  let ?pp = "\<lparr>class_list = []\<rparr> :: tplg_pre_processor"
  let ?refs = "[\<lparr>ref_id = ''duplex'', ref_string = ''d'', ref_value = - 22 :: c_int\<rparr>,
                \<lparr>ref_id = ''capture'', ref_string = ''c'', ref_value = - 22\<rparr>,
                \<lparr>ref_id = ''playback'', ref_string = ''p'', ref_value = - 22\<rparr>]"
  let ?pp' = "\<lparr>class_list = [\<lparr>class_name = ''Foo'', num_args = 1,
            attribute_list =
              [\<lparr>attr_name = ''dir'', param_type = TPLG_CLASS_PARAM_TYPE_ARGUMENT, token_ref = [],
                constraint = \<lparr>value_list = ?refs, mask = 2, c_min = INT_MIN, c_max = INT_MAX\<rparr>\<rparr>,
               \<lparr>attr_name = ''rate'', param_type = TPLG_CLASS_PARAM_TYPE_ATTRIBUTE, token_ref = [],
                constraint = \<lparr>value_list = [], mask = 0, c_min = INT_MIN, c_max = INT_MAX\<rparr>\<rparr>]\<rparr>]\<rparr>"
  let ?attr = "\<lparr>attr_name = ''dir'', param_type = TPLG_CLASS_PARAM_TYPE_ARGUMENT, token_ref = [],
          constraint = \<lparr>value_list = ?refs, mask = 0 :: c_int, c_min = INT_MIN, c_max = INT_MAX\<rparr>\<rparr>"
  have h1: "node_id ?cfg = Some ''Foo'' \<and> tplg_class_lookup ?pp ''Foo'' = None
      \<and> tplg_define_class ?pp ?cfg = Done ?pp'"
    by (simp add: compiler_defs reader_defs constant_defs)
  have h2: "tplg_parse_class_attribute ?n (init_attribute TPLG_CLASS_PARAM_TYPE_ARGUMENT ''dir'') = Done ?attr"
    by (simp add: compiler_defs reader_defs constant_defs)
  note first = C4_declaration_order [THEN conjunct1, THEN mp, OF h1]
  note second = C4_declaration_order [THEN conjunct2, THEN mp, OF h2]
  have d0: "declared_attributes ?cfg
     = [(TPLG_CLASS_PARAM_TYPE_ARGUMENT, ''dir'', ?n), (TPLG_CLASS_PARAM_TYPE_ATTRIBUTE, ''rate'', ?rate)]"
    by (simp add: declared_attributes_def declared_attribute_def)
  have d1: "map (\<lambda>i. snd_strlcpy i SNDRV_CTL_ELEM_ID_NAME_MAXLEN) (declared_attribute_names ?cfg)
     = [''dir'', ''rate'']"
    by (simp add: declared_attribute_names_def constant_defs List.map_filter_simps)
  have d2: "map (\<lambda>e. (node_id e, node_val e)) (declared_valid_values ?n)
     = [(Some ''playback'', STRING ''p''), (Some ''capture'', STRING ''c''), (Some ''duplex'', STRING ''d'')]"
    by (simp add: declared_valid_values_def)
  show ?thesis
    by (intro conjI h1 [THEN conjunct1] h1 [THEN conjunct2, THEN conjunct1]
        h1 [THEN conjunct2, THEN conjunct2] d0 first [unfolded d0 d1] h2 second [unfolded d2])
qed

section \<open>The first error ends the compilation\<close>

lemma valid_values_fail_EINVAL:
  "tplg_parse_constraint_valid_values cfg attr = Failed e attr' \<Longrightarrow> e = EINVAL"
  unfolding tplg_parse_constraint_valid_values_def
  by (erule for_each_Failed_error)
    (auto simp add: valid_values_entry_def reader_defs split: option.splits snd_config_val.splits)

lemma valid_value_ref_fail_EINVAL:
  "tplg_parse_constraint_valid_value_ref cfg attr = Failed e attr' \<Longrightarrow> e = EINVAL"
  unfolding tplg_parse_constraint_valid_value_ref_def
  by (erule for_each_Failed_error)
    (auto simp add: valid_value_ref_entry_def reference_value_def reader_defs
      split: option.splits snd_config_val.splits list.splits if_splits)

lemma constraints_fail_EINVAL:
  "tplg_parse_class_constraints cfg attr = Failed e attr' \<Longrightarrow> e = EINVAL"
  unfolding tplg_parse_class_constraints_def
  by (erule for_each_Failed_error)
    (auto simp add: class_constraints_entry_def reader_defs
      split: option.splits snd_config_val.splits if_splits
      dest: valid_values_fail_EINVAL valid_value_ref_fail_EINVAL)

lemma class_attribute_fails_on_constraints:
  assumes "children a = kpre @ k # kpost"
    and "snd_config_for_each class_attribute_entry attr0 kpre = Done attr1"
    and "node_id k = Some ''constraints''"
    and "tplg_parse_class_constraints k attr1 = Failed e0 attr2"
  shows "tplg_parse_class_attribute a attr0 = Failed EINVAL attr2"
proof -
  have "class_attribute_entry attr1 k = Failed EINVAL attr2"
    using assms(3,4) by (simp add: class_attribute_entry_def snd_config_get_id_def)
  with assms(1,2) show ?thesis
    by (simp add: tplg_parse_class_attribute_def for_each_fails_at)
qed

lemma class_attributes_fails:
  assumes "children sec = apre @ a # apost"
    and "snd_config_for_each (class_attributes_entry type) c1 apre = Done c2"
    and "node_id a = Some aname"
    and "tplg_parse_class_attribute a (init_attribute type aname) = Failed e attr'"
  shows "tplg_parse_class_attributes sec c1 type
     = Failed e (if type = TPLG_CLASS_PARAM_TYPE_ARGUMENT then c2\<lparr>num_args := num_args c2 + 1\<rparr> else c2)"
proof -
  have "class_attributes_entry type c2 a
     = Failed e (if type = TPLG_CLASS_PARAM_TYPE_ARGUMENT then c2\<lparr>num_args := num_args c2 + 1\<rparr> else c2)"
    using assms(3,4) by (simp add: class_attributes_entry_def snd_config_get_id_def)
  with assms(1,2) show ?thesis
    by (simp add: tplg_parse_class_attributes_def for_each_fails_at)
qed

lemma define_class_entry_fails:
  assumes "node_id sec = Some ''DefineArgument'' \<and> type = TPLG_CLASS_PARAM_TYPE_ARGUMENT
         \<or> node_id sec = Some ''DefineAttribute'' \<and> type = TPLG_CLASS_PARAM_TYPE_ATTRIBUTE"
    and "tplg_parse_class_attributes sec c1 type = Failed e c2"
  shows "define_class_entry c1 sec = Failed e c2"
  using assms by (auto simp add: define_class_entry_def snd_config_get_id_def)

lemma define_class_fails:
  assumes "node_id cl = Some name" and "tplg_class_lookup tplg_pp1 name = None"
    and "snd_config_for_each define_class_entry
           \<lparr>class_name = snd_strlcpy name SNDRV_CTL_ELEM_ID_NAME_MAXLEN, num_args = 0,
            attribute_list = []\<rparr> (children cl) = Failed e c"
  shows "tplg_define_class tplg_pp1 cl = Failed e (tplg_pp1\<lparr>class_list := c # class_list tplg_pp1\<rparr>)"
  using assms by (simp add: tplg_define_class_def snd_config_get_id_def)

lemma define_classes_fails:
  assumes "tplg_define_classes tplg_pp (Node i (COMPOUND pre)) = Done tplg_pp1"
    and "node_id cl = Some name"
    and "tplg_define_class tplg_pp1 cl = Failed e tplg_pp2"
  shows "tplg_define_classes tplg_pp (Node i (COMPOUND (pre @ cl # post))) = Failed e tplg_pp2"
proof -
  have "define_classes_entry tplg_pp1 cl = Failed e tplg_pp2"
    using assms(2,3) by (simp add: define_classes_entry_def snd_config_get_id_def)
  with assms(1) show ?thesis
    by (simp add: tplg_define_classes_def for_each_fails_at)
qed

text \<open>
  C6. The top-level children before the class \<open>cl\<close> have been processed and \<open>cl\<close> is a
  new class. In its body the children before the section \<open>sec\<close> (a \<^verbatim>\<open>DefineArgument\<close>
  or \<^verbatim>\<open>DefineAttribute\<close>) have been processed, and in the section the attributes before
  \<open>a\<close> have been built. If building the attribute \<open>a\<close> fails, \<^verbatim>\<open>tplg_define_classes\<close>
  returns that error, whatever top-level children follow, and the registry is the one
  that held before \<open>cl\<close> with the failing class in front of it: the class as it was
  built so far, with the argument count already grown for \<open>a\<close> when \<open>a\<close> is an
  argument. If building a constraints block of \<open>a\<close> fails, its error is \<^verbatim>\<open>-EINVAL\<close>
  and \<^verbatim>\<open>tplg_define_classes\<close> returns it with the same registry.
\<close>

theorem C6_first_error_aborts_without_rollback:
  assumes "tplg_define_classes tplg_pp (Node i (COMPOUND pre)) = Done tplg_pp1"
    and "node_id cl = Some name" and "tplg_class_lookup tplg_pp1 name = None"
    and "children cl = cpre @ sec # cpost"
    and "snd_config_for_each define_class_entry
           \<lparr>class_name = snd_strlcpy name SNDRV_CTL_ELEM_ID_NAME_MAXLEN, num_args = 0,
            attribute_list = []\<rparr> cpre = Done c1"
    and "node_id sec = Some ''DefineArgument'' \<and> type = TPLG_CLASS_PARAM_TYPE_ARGUMENT
         \<or> node_id sec = Some ''DefineAttribute'' \<and> type = TPLG_CLASS_PARAM_TYPE_ATTRIBUTE"
    and "children sec = apre @ a # apost"
    and "snd_config_for_each (class_attributes_entry type) c1 apre = Done c2"
    and "node_id a = Some aname"
  shows "(tplg_parse_class_attribute a (init_attribute type aname) = Failed e attr'
          \<longrightarrow> tplg_define_classes tplg_pp (Node i (COMPOUND (pre @ cl # post)))
               = Failed e (tplg_pp1\<lparr>class_list :=
                   (if type = TPLG_CLASS_PARAM_TYPE_ARGUMENT then c2\<lparr>num_args := num_args c2 + 1\<rparr> else c2)
                   # class_list tplg_pp1\<rparr>))
       \<and> (children a = kpre @ k # kpost
            \<and> snd_config_for_each class_attribute_entry (init_attribute type aname) kpre = Done attr1
            \<and> node_id k = Some ''constraints''
            \<and> tplg_parse_class_constraints k attr1 = Failed e0 attr2
          \<longrightarrow> e0 = EINVAL
            \<and> tplg_define_classes tplg_pp (Node i (COMPOUND (pre @ cl # post)))
               = Failed e0 (tplg_pp1\<lparr>class_list :=
                   (if type = TPLG_CLASS_PARAM_TYPE_ARGUMENT then c2\<lparr>num_args := num_args c2 + 1\<rparr> else c2)
                   # class_list tplg_pp1\<rparr>))"
proof -
  let ?c = "if type = TPLG_CLASS_PARAM_TYPE_ARGUMENT then c2\<lparr>num_args := num_args c2 + 1\<rparr> else c2"
  have attr: "tplg_define_classes tplg_pp (Node i (COMPOUND (pre @ cl # post)))
       = Failed err (tplg_pp1\<lparr>class_list := ?c # class_list tplg_pp1\<rparr>)"
    if "tplg_parse_class_attribute a (init_attribute type aname) = Failed err x" for err x
  proof -
    have "tplg_parse_class_attributes sec c1 type = Failed err ?c"
      using assms(7,8,9) that by (rule class_attributes_fails)
    then have "define_class_entry c1 sec = Failed err ?c"
      using assms(6) by (intro define_class_entry_fails)
    then have "snd_config_for_each define_class_entry
           \<lparr>class_name = snd_strlcpy name SNDRV_CTL_ELEM_ID_NAME_MAXLEN, num_args = 0,
            attribute_list = []\<rparr> (children cl) = Failed err ?c"
      using assms(4,5) by (simp add: for_each_fails_at)
    then have "tplg_define_class tplg_pp1 cl = Failed err (tplg_pp1\<lparr>class_list := ?c # class_list tplg_pp1\<rparr>)"
      using assms(2,3) by (intro define_class_fails)
    then show ?thesis
      using assms(1,2) by (intro define_classes_fails)
  qed
  have e0: "e0 = EINVAL" if "tplg_parse_class_constraints k attr1 = Failed e0 attr2"
    using that constraints_fail_EINVAL by blast
  show ?thesis
  proof (intro conjI impI)
    assume "tplg_parse_class_attribute a (init_attribute type aname) = Failed e attr'"
    then show "tplg_define_classes tplg_pp (Node i (COMPOUND (pre @ cl # post)))
               = Failed e (tplg_pp1\<lparr>class_list := ?c # class_list tplg_pp1\<rparr>)"
      by (rule attr)
  next
    assume k: "children a = kpre @ k # kpost
            \<and> snd_config_for_each class_attribute_entry (init_attribute type aname) kpre = Done attr1
            \<and> node_id k = Some ''constraints''
            \<and> tplg_parse_class_constraints k attr1 = Failed e0 attr2"
    then show "e0 = EINVAL" by (intro e0) simp
  next
    assume k: "children a = kpre @ k # kpost
            \<and> snd_config_for_each class_attribute_entry (init_attribute type aname) kpre = Done attr1
            \<and> node_id k = Some ''constraints''
            \<and> tplg_parse_class_constraints k attr1 = Failed e0 attr2"
    then have "e0 = EINVAL" by (intro e0) simp
    moreover have "tplg_parse_class_attribute a (init_attribute type aname) = Failed EINVAL attr2"
      using k class_attribute_fails_on_constraints by blast
    ultimately show "tplg_define_classes tplg_pp (Node i (COMPOUND (pre @ cl # post)))
               = Failed e0 (tplg_pp1\<lparr>class_list := ?c # class_list tplg_pp1\<rparr>)"
      using attr by simp
  qed
qed

text \<open>
  An instance: the class A is defined; the class B declares the arguments x, y and z,
  and the constraints of y hold a \<^verbatim>\<open>min\<close> that is a string. The call returns
  \<^verbatim>\<open>-EINVAL\<close>; the registry holds B with x and an argument count of 2, and A; the
  argument z and the class C are not processed.
\<close>

theorem C6_first_error_aborts_without_rollback_witness:
  "tplg_define_classes \<lparr>class_list = []\<rparr> (Node None (COMPOUND [Node (Some ''A'') (COMPOUND [])]))
     = Done \<lparr>class_list = [\<lparr>class_name = ''A'', num_args = 0, attribute_list = []\<rparr>]\<rparr>
   \<and> node_id (Node (Some ''B'') (COMPOUND [Node (Some ''DefineArgument'')
         (COMPOUND [Node (Some ''x'') (COMPOUND []),
                    Node (Some ''y'') (COMPOUND [Node (Some ''constraints'')
                       (COMPOUND [Node (Some ''min'') (STRING ''low'')])]),
                    Node (Some ''z'') (COMPOUND [])])])) = Some ''B''
   \<and> tplg_class_lookup \<lparr>class_list = [\<lparr>class_name = ''A'', num_args = 0, attribute_list = []\<rparr>]\<rparr> ''B'' = None
   \<and> children (Node (Some ''B'') (COMPOUND [Node (Some ''DefineArgument'')
         (COMPOUND [Node (Some ''x'') (COMPOUND []),
                    Node (Some ''y'') (COMPOUND [Node (Some ''constraints'')
                       (COMPOUND [Node (Some ''min'') (STRING ''low'')])]),
                    Node (Some ''z'') (COMPOUND [])])]))
     = [] @ Node (Some ''DefineArgument'')
         (COMPOUND [Node (Some ''x'') (COMPOUND []),
                    Node (Some ''y'') (COMPOUND [Node (Some ''constraints'')
                       (COMPOUND [Node (Some ''min'') (STRING ''low'')])]),
                    Node (Some ''z'') (COMPOUND [])]) # []
   \<and> snd_config_for_each define_class_entry
        \<lparr>class_name = snd_strlcpy ''B'' SNDRV_CTL_ELEM_ID_NAME_MAXLEN, num_args = 0, attribute_list = []\<rparr> []
     = Done \<lparr>class_name = ''B'', num_args = 0, attribute_list = []\<rparr>
   \<and> (node_id (Node (Some ''DefineArgument'')
         (COMPOUND [Node (Some ''x'') (COMPOUND []),
                    Node (Some ''y'') (COMPOUND [Node (Some ''constraints'')
                       (COMPOUND [Node (Some ''min'') (STRING ''low'')])]),
                    Node (Some ''z'') (COMPOUND [])])) = Some ''DefineArgument''
        \<and> TPLG_CLASS_PARAM_TYPE_ARGUMENT = TPLG_CLASS_PARAM_TYPE_ARGUMENT
      \<or> node_id (Node (Some ''DefineArgument'')
         (COMPOUND [Node (Some ''x'') (COMPOUND []),
                    Node (Some ''y'') (COMPOUND [Node (Some ''constraints'')
                       (COMPOUND [Node (Some ''min'') (STRING ''low'')])]),
                    Node (Some ''z'') (COMPOUND [])])) = Some ''DefineAttribute''
        \<and> TPLG_CLASS_PARAM_TYPE_ARGUMENT = TPLG_CLASS_PARAM_TYPE_ATTRIBUTE)
   \<and> children (Node (Some ''DefineArgument'')
         (COMPOUND [Node (Some ''x'') (COMPOUND []),
                    Node (Some ''y'') (COMPOUND [Node (Some ''constraints'')
                       (COMPOUND [Node (Some ''min'') (STRING ''low'')])]),
                    Node (Some ''z'') (COMPOUND [])]))
     = [Node (Some ''x'') (COMPOUND [])]
       @ Node (Some ''y'') (COMPOUND [Node (Some ''constraints'')
                       (COMPOUND [Node (Some ''min'') (STRING ''low'')])])
       # [Node (Some ''z'') (COMPOUND [])]
   \<and> snd_config_for_each (class_attributes_entry TPLG_CLASS_PARAM_TYPE_ARGUMENT)
        \<lparr>class_name = ''B'', num_args = 0, attribute_list = []\<rparr> [Node (Some ''x'') (COMPOUND [])]
     = Done \<lparr>class_name = ''B'', num_args = 1,
             attribute_list = [init_attribute TPLG_CLASS_PARAM_TYPE_ARGUMENT ''x'']\<rparr>
   \<and> node_id (Node (Some ''y'') (COMPOUND [Node (Some ''constraints'')
                       (COMPOUND [Node (Some ''min'') (STRING ''low'')])])) = Some ''y''
   \<and> tplg_parse_class_attribute
        (Node (Some ''y'') (COMPOUND [Node (Some ''constraints'')
                       (COMPOUND [Node (Some ''min'') (STRING ''low'')])]))
        (init_attribute TPLG_CLASS_PARAM_TYPE_ARGUMENT ''y'')
     = Failed EINVAL (init_attribute TPLG_CLASS_PARAM_TYPE_ARGUMENT ''y'')
   \<and> tplg_define_classes \<lparr>class_list = []\<rparr>
        (Node None (COMPOUND ([Node (Some ''A'') (COMPOUND [])]
           @ Node (Some ''B'') (COMPOUND [Node (Some ''DefineArgument'')
               (COMPOUND [Node (Some ''x'') (COMPOUND []),
                          Node (Some ''y'') (COMPOUND [Node (Some ''constraints'')
                             (COMPOUND [Node (Some ''min'') (STRING ''low'')])]),
                          Node (Some ''z'') (COMPOUND [])])])
           # [Node (Some ''C'') (COMPOUND [])])))
     = Failed EINVAL \<lparr>class_list =
         [\<lparr>class_name = ''B'', num_args = 2,
           attribute_list = [init_attribute TPLG_CLASS_PARAM_TYPE_ARGUMENT ''x'']\<rparr>,
          \<lparr>class_name = ''A'', num_args = 0, attribute_list = []\<rparr>]\<rparr>
   \<and> (children (Node (Some ''y'') (COMPOUND [Node (Some ''constraints'')
                       (COMPOUND [Node (Some ''min'') (STRING ''low'')])]))
        = [] @ Node (Some ''constraints'') (COMPOUND [Node (Some ''min'') (STRING ''low'')]) # []
      \<and> snd_config_for_each class_attribute_entry (init_attribute TPLG_CLASS_PARAM_TYPE_ARGUMENT ''y'') []
        = Done (init_attribute TPLG_CLASS_PARAM_TYPE_ARGUMENT ''y'')
      \<and> node_id (Node (Some ''constraints'') (COMPOUND [Node (Some ''min'') (STRING ''low'')]))
        = Some ''constraints''
      \<and> tplg_parse_class_constraints
           (Node (Some ''constraints'') (COMPOUND [Node (Some ''min'') (STRING ''low'')]))
           (init_attribute TPLG_CLASS_PARAM_TYPE_ARGUMENT ''y'')
        = Failed EINVAL (init_attribute TPLG_CLASS_PARAM_TYPE_ARGUMENT ''y''))"
proof -
  let ?x = "Node (Some ''x'') (COMPOUND [])"
  let ?k = "Node (Some ''constraints'') (COMPOUND [Node (Some ''min'') (STRING ''low'')])"
  let ?y = "Node (Some ''y'') (COMPOUND [?k])"
  let ?z = "Node (Some ''z'') (COMPOUND [])"
  let ?sec = "Node (Some ''DefineArgument'') (COMPOUND [?x, ?y, ?z])"
  let ?cl = "Node (Some ''B'') (COMPOUND [?sec])"
  let ?pre = "[Node (Some ''A'') (COMPOUND [])]"
  let ?post = "[Node (Some ''C'') (COMPOUND [])]"
  let ?pp = "\<lparr>class_list = []\<rparr> :: tplg_pre_processor"
  let ?A = "\<lparr>class_name = ''A'', num_args = 0, attribute_list = []\<rparr>"
  let ?pp1 = "\<lparr>class_list = [?A]\<rparr>"
  let ?c1 = "\<lparr>class_name = ''B'', num_args = 0, attribute_list = []\<rparr>"
  let ?c2 = "\<lparr>class_name = ''B'', num_args = 1,
             attribute_list = [init_attribute TPLG_CLASS_PARAM_TYPE_ARGUMENT ''x'']\<rparr>"
  let ?init = "init_attribute TPLG_CLASS_PARAM_TYPE_ARGUMENT ''y''"
  have h1: "tplg_define_classes ?pp (Node None (COMPOUND ?pre)) = Done ?pp1"
    by (simp add: compiler_defs reader_defs constant_defs)
  have h2: "node_id ?cl = Some ''B''" by simp
  have h3: "tplg_class_lookup ?pp1 ''B'' = None" by simp
  have h4: "children ?cl = [] @ ?sec # []" by simp
  have h5: "snd_config_for_each define_class_entry
        \<lparr>class_name = snd_strlcpy ''B'' SNDRV_CTL_ELEM_ID_NAME_MAXLEN, num_args = 0, attribute_list = []\<rparr> []
     = Done ?c1"
    by (simp add: constant_defs)
  have h6: "node_id ?sec = Some ''DefineArgument''
        \<and> TPLG_CLASS_PARAM_TYPE_ARGUMENT = TPLG_CLASS_PARAM_TYPE_ARGUMENT
      \<or> node_id ?sec = Some ''DefineAttribute''
        \<and> TPLG_CLASS_PARAM_TYPE_ARGUMENT = TPLG_CLASS_PARAM_TYPE_ATTRIBUTE"
    by simp
  have h7: "children ?sec = [?x] @ ?y # [?z]" by simp
  have h8: "snd_config_for_each (class_attributes_entry TPLG_CLASS_PARAM_TYPE_ARGUMENT) ?c1 [?x] = Done ?c2"
    by (simp add: class_attributes_entry_def tplg_parse_class_attribute_def reader_defs)
  have h9: "node_id ?y = Some ''y''" by simp
  have h10: "tplg_parse_class_attribute ?y ?init = Failed EINVAL ?init"
    by (simp add: tplg_parse_class_attribute_def class_attribute_entry_def
        tplg_parse_class_constraints_def class_constraints_entry_def reader_defs)
  have h11: "children ?y = [] @ ?k # []
      \<and> snd_config_for_each class_attribute_entry ?init [] = Done ?init
      \<and> node_id ?k = Some ''constraints''
      \<and> tplg_parse_class_constraints ?k ?init = Failed EINVAL ?init"
    by (simp add: tplg_parse_class_constraints_def class_constraints_entry_def reader_defs)
  note inst = C6_first_error_aborts_without_rollback [OF h1 h2 h3 h4 h5 h6 h7 h8 h9,
      where post = ?post]
  from inst [THEN conjunct1, THEN mp, OF h10]
  have c1: "tplg_define_classes ?pp (Node None (COMPOUND (?pre @ ?cl # ?post)))
     = Failed EINVAL \<lparr>class_list =
         [\<lparr>class_name = ''B'', num_args = 2,
           attribute_list = [init_attribute TPLG_CLASS_PARAM_TYPE_ARGUMENT ''x'']\<rparr>, ?A]\<rparr>"
    by simp
  from inst [THEN conjunct2, THEN mp, OF h11]
  have c2: "tplg_define_classes ?pp (Node None (COMPOUND (?pre @ ?cl # ?post)))
     = Failed EINVAL \<lparr>class_list =
         [\<lparr>class_name = ''B'', num_args = 2,
           attribute_list = [init_attribute TPLG_CLASS_PARAM_TYPE_ARGUMENT ''x'']\<rparr>, ?A]\<rparr>"
    by simp
  show ?thesis
    using c2 by (intro conjI h1 h2 h3 h4 h5 h6 h7 h8 h9 h10 c1 h11 [THEN conjunct1]
        h11 [THEN conjunct2, THEN conjunct1] h11 [THEN conjunct2, THEN conjunct2, THEN conjunct1]
        h11 [THEN conjunct2, THEN conjunct2, THEN conjunct2])
qed

end
